theory Spec2Isabelle
  imports Main "HOL-Library.Sublist" "HOL-Library.AList"
begin

section \<open>Python values\<close>

text \<open>
  The agent handles JSON-like Python values: the \<^verbatim>\<open>data\<close> of a data part is a
  \<^verbatim>\<open>Dict[str, Any]\<close>, and \<^verbatim>\<open>json.loads\<close> returns such values. A \<^verbatim>\<open>str\<close> is a
  \<open>string\<close> holding UTF-8 text; a \<^verbatim>\<open>dict\<close> is an association list in insertion order,
  read with \<open>map_of\<close> and written with \<open>AList.update\<close>, which like Python keeps the
  position of a key that is already there. A \<^verbatim>\<open>float\<close> is represented by the two things
  the program can observe of it: whether it is non-zero (its truth value) and the text
  \<^verbatim>\<open>repr\<close> gives for it. An \<^verbatim>\<open>int\<close> is unbounded.
\<close>

datatype pyfloat = PyFloat (nonzero: bool) (float_repr: string)

datatype pyval =
    PNone
  | PBool bool
  | PInt int
  | PFloat pyfloat
  | PStr string
  | PList "pyval list"
  | PDict "(string \<times> pyval) list"

type_synonym pydict = "(string \<times> pyval) list"

text \<open>
  An instance of \<^verbatim>\<open>Exception\<close>: the name of its class and \<^verbatim>\<open>str(e)\<close>. A function that
  can raise returns \<open>exn + 'a\<close>, with \<open>Inl\<close> the raised exception.
\<close>

datatype exn = Exn (exn_type: string) (exn_str: string)

text \<open>\<^verbatim>\<open>try: body  except Exception as e: handler(e)\<close>\<close>

definition try_except :: "exn + 'a \<Rightarrow> (exn \<Rightarrow> exn + 'a) \<Rightarrow> exn + 'a" where
  "try_except body handler = (case body of Inl e \<Rightarrow> handler e | Inr v \<Rightarrow> Inr v)"

text \<open>\<^verbatim>\<open>d.get(k, default)\<close>\<close>

definition py_get :: "pydict \<Rightarrow> string \<Rightarrow> pyval \<Rightarrow> pyval" where
  "py_get d k dflt = (case map_of d k of Some v \<Rightarrow> v | None \<Rightarrow> dflt)"

text \<open>The truth value of an object, as \<^verbatim>\<open>if x\<close> and \<^verbatim>\<open>not x\<close> test it.\<close>

fun py_truthy :: "pyval \<Rightarrow> bool" where
  "py_truthy PNone = False"
| "py_truthy (PBool b) = b"
| "py_truthy (PInt i) = (i \<noteq> 0)"
| "py_truthy (PFloat f) = nonzero f"
| "py_truthy (PStr s) = (s \<noteq> [])"
| "py_truthy (PList xs) = (xs \<noteq> [])"
| "py_truthy (PDict d) = (d \<noteq> [])"

text \<open>\<^verbatim>\<open>type(x).__name__\<close>, which the messages of \<^verbatim>\<open>TypeError\<close> and \<^verbatim>\<open>AttributeError\<close> quote.\<close>

fun py_type_name :: "pyval \<Rightarrow> string" where
  "py_type_name PNone = ''NoneType''"
| "py_type_name (PBool b) = ''bool''"
| "py_type_name (PInt i) = ''int''"
| "py_type_name (PFloat f) = ''float''"
| "py_type_name (PStr s) = ''str''"
| "py_type_name (PList xs) = ''list''"
| "py_type_name (PDict d) = ''dict''"

subsection \<open>\<^verbatim>\<open>str\<close> and \<^verbatim>\<open>repr\<close>\<close>

definition digit_char :: "nat \<Rightarrow> char" where
  "digit_char d = char_of (of_char CHR ''0'' + d)"

fun str_nat :: "nat \<Rightarrow> string" where
  "str_nat n = (if n < 10 then [digit_char n] else str_nat (n div 10) @ [digit_char (n mod 10)])"

declare str_nat.simps [simp del]

definition str_int :: "int \<Rightarrow> string" where
  "str_int i = (if i < 0 then CHR ''-'' # str_nat (nat (- i)) else str_nat (nat i))"

definition hex_char :: "nat \<Rightarrow> char" where
  "hex_char d = (if d < 10 then digit_char d else char_of (of_char CHR ''a'' + (d - 10)))"

text \<open>\<^verbatim>\<open>sep.join(xs)\<close> on strings.\<close>

fun join_str :: "string \<Rightarrow> string list \<Rightarrow> string" where
  "join_str sep [] = []"
| "join_str sep [x] = x"
| "join_str sep (x # y # ys) = x @ sep @ join_str sep (y # ys)"

text \<open>
  \<^verbatim>\<open>repr\<close> of a \<^verbatim>\<open>str\<close>: single quotes, unless the text has a single quote and no double
  quote; the quote and the backslash are escaped, tab, newline and carriage return are
  written \<^verbatim>\<open>\t \n \r\<close>, the other control characters \<^verbatim>\<open>\xNN\<close>. The bytes of non-ASCII
  text stay as they are (printable characters are not escaped).
\<close>

definition repr_char :: "char \<Rightarrow> char \<Rightarrow> string" where
  "repr_char q c =
     (if c = q \<or> c = CHR 0x5C then [CHR 0x5C, c]
      else if c = CHR 0x09 then [CHR 0x5C, CHR ''t'']
      else if c = CHR 0x0A then [CHR 0x5C, CHR ''n'']
      else if c = CHR 0x0D then [CHR 0x5C, CHR ''r'']
      else if (of_char c :: nat) < 32 \<or> c = CHR 0x7F
        then [CHR 0x5C, CHR ''x'', hex_char (of_char c div 16), hex_char (of_char c mod 16)]
      else [c])"

definition repr_str :: "string \<Rightarrow> string" where
  "repr_str s =
     (let q = (if CHR 0x27 \<in> set s \<and> CHR 0x22 \<notin> set s then CHR 0x22 else CHR 0x27)
      in q # concat (map (repr_char q) s) @ [q])"

fun py_repr :: "pyval \<Rightarrow> string" where
  "py_repr PNone = ''None''"
| "py_repr (PBool b) = (if b then ''True'' else ''False'')"
| "py_repr (PInt i) = str_int i"
| "py_repr (PFloat f) = float_repr f"
| "py_repr (PStr s) = repr_str s"
| "py_repr (PList xs) = ''['' @ join_str '', '' (map py_repr xs) @ '']''"
| "py_repr (PDict d) =
     ''{'' @ join_str '', '' (map (\<lambda>kv. repr_str (fst kv) @ '': '' @ py_repr (snd kv)) d) @ ''}''"

text \<open>\<^verbatim>\<open>str(x)\<close>, which is also what an f-string field \<^verbatim>\<open>{x}\<close> inserts.\<close>

definition py_str :: "pyval \<Rightarrow> string" where
  "py_str v = (case v of PStr s \<Rightarrow> s | _ \<Rightarrow> py_repr v)"

section \<open>The JSON codec of the standard library\<close>

text \<open>
  \<^verbatim>\<open>json.loads\<close> and \<^verbatim>\<open>json.dumps\<close> belong to Python, not to the agent; they are modelled
  here after the \<^verbatim>\<open>json\<close> module so that the agent's functions can be run on concrete
  model responses. The decoder is a lexer followed by a stack automaton over the tokens,
  both plain recursion over their input. The conversion of a decimal literal to a
  \<^verbatim>\<open>float\<close> is the argument \<open>pf\<close> (the \<^verbatim>\<open>parse_float\<close> hook of \<^verbatim>\<open>json.loads\<close>, by default
  \<^verbatim>\<open>float\<close>). The text of a decoding error is not modelled: the agent never reads it.
\<close>

subsection \<open>UTF-8\<close>

definition is_cont :: "char \<Rightarrow> bool" where
  "is_cont c = (128 \<le> (of_char c :: nat) \<and> (of_char c :: nat) < 192)"

text \<open>The characters (code points) of a text, each as its own byte sequence.\<close>

fun utf8_chars :: "string \<Rightarrow> string list" where
  "utf8_chars [] = []"
| "utf8_chars (c # cs) =
     (case utf8_chars cs of
        [] \<Rightarrow> [[c]]
      | g # gs \<Rightarrow> if g \<noteq> [] \<and> is_cont (hd g) then (c # g) # gs else [c] # g # gs)"

definition utf8_encode :: "nat \<Rightarrow> string" where
  "utf8_encode n =
     (if n < 128 then [char_of n]
      else if n < 2048 then [char_of (192 + n div 64), char_of (128 + n mod 64)]
      else if n < 65536 then
        [char_of (224 + n div 4096), char_of (128 + (n div 64) mod 64), char_of (128 + n mod 64)]
      else
        [char_of (240 + n div 262144), char_of (128 + (n div 4096) mod 64),
         char_of (128 + (n div 64) mod 64), char_of (128 + n mod 64)])"

definition utf8_decode :: "string \<Rightarrow> nat" where
  "utf8_decode g =
     (case g of
        [] \<Rightarrow> 0
      | c # cs \<Rightarrow>
          (let b = (of_char c :: nat);
               lead = (if b < 128 then b else if b < 224 then b mod 32
                       else if b < 240 then b mod 16 else b mod 8)
           in foldl (\<lambda>a d. 64 * a + (of_char d :: nat) mod 64) lead cs))"

subsection \<open>Decoding\<close>

datatype token = TLBrace | TRBrace | TLBrack | TRBrack | TComma | TColon | TScalar pyval

datatype lexmode =
    LOut
  | LWord string
  | LStr string "nat option"
  | LEsc string "nat option"
  | LHex string "nat option" nat nat

definition is_ws :: "char \<Rightarrow> bool" where
  "is_ws c = (c = CHR '' '' \<or> c = CHR 0x09 \<or> c = CHR 0x0A \<or> c = CHR 0x0D)"

definition punct :: "char \<Rightarrow> token option" where
  "punct c =
     (if c = CHR ''{'' then Some TLBrace else if c = CHR ''}'' then Some TRBrace
      else if c = CHR ''['' then Some TLBrack else if c = CHR '']'' then Some TRBrack
      else if c = CHR '','' then Some TComma else if c = CHR '':'' then Some TColon
      else None)"

definition is_digit :: "char \<Rightarrow> bool" where
  "is_digit c = (48 \<le> (of_char c :: nat) \<and> (of_char c :: nat) \<le> 57)"

definition hex_val :: "char \<Rightarrow> nat option" where
  "hex_val c =
     (let n = (of_char c :: nat)
      in if 48 \<le> n \<and> n \<le> 57 then Some (n - 48)
         else if 65 \<le> n \<and> n \<le> 70 then Some (n - 55)
         else if 97 \<le> n \<and> n \<le> 102 then Some (n - 87)
         else None)"

definition unescape :: "char \<Rightarrow> char option" where
  "unescape c =
     (if c = CHR 0x22 \<or> c = CHR 0x5C \<or> c = CHR ''/'' then Some c
      else if c = CHR ''b'' then Some (CHR 0x08)
      else if c = CHR ''f'' then Some (CHR 0x0C)
      else if c = CHR ''n'' then Some (CHR 0x0A)
      else if c = CHR ''r'' then Some (CHR 0x0D)
      else if c = CHR ''t'' then Some (CHR 0x09)
      else None)"

definition nat_of_digits :: "string \<Rightarrow> nat" where
  "nat_of_digits ds = foldl (\<lambda>a c. 10 * a + ((of_char c :: nat) - 48)) 0 ds"

text \<open>
  The number grammar of the decoder,
  \<^verbatim>\<open>(-?(?:0|[1-9]\d*))(\.\d+)?([eE][-+]?\d+)?\<close>: an \<^verbatim>\<open>int\<close> without fraction and exponent,
  a \<^verbatim>\<open>float\<close> otherwise.
\<close>

definition number_value :: "(string \<Rightarrow> pyfloat) \<Rightarrow> string \<Rightarrow> pyval option" where
  "number_value pf w =
     (let neg = (w \<noteq> [] \<and> hd w = CHR ''-'');
          r0 = (if neg then tl w else w);
          ip = takeWhile is_digit r0;
          r1 = dropWhile is_digit r0;
          has_frac = (r1 \<noteq> [] \<and> hd r1 = CHR ''.'');
          fr = (if has_frac then takeWhile is_digit (tl r1) else []);
          r2 = (if has_frac then dropWhile is_digit (tl r1) else r1);
          has_exp = (r2 \<noteq> [] \<and> (hd r2 = CHR ''e'' \<or> hd r2 = CHR ''E''));
          r3 = (if has_exp \<and> tl r2 \<noteq> [] \<and> (hd (tl r2) = CHR ''+'' \<or> hd (tl r2) = CHR ''-'')
                then tl (tl r2) else tl r2);
          ex = (if has_exp then takeWhile is_digit r3 else []);
          r4 = (if has_exp then dropWhile is_digit r3 else r2)
      in if r4 = [] \<and> (ip = ''0'' \<or> (ip \<noteq> [] \<and> hd ip \<noteq> CHR ''0''))
            \<and> (has_frac \<longrightarrow> fr \<noteq> []) \<and> (has_exp \<longrightarrow> ex \<noteq> [])
         then (if has_frac \<or> has_exp then Some (PFloat (pf w))
               else Some (PInt (if neg then - int (nat_of_digits ip) else int (nat_of_digits ip))))
         else None)"

definition classify_word :: "(string \<Rightarrow> pyfloat) \<Rightarrow> string \<Rightarrow> pyval option" where
  "classify_word pf w =
     (if w = ''null'' then Some PNone
      else if w = ''true'' then Some (PBool True)
      else if w = ''false'' then Some (PBool False)
      else if w = ''NaN'' then Some (PFloat (PyFloat True ''nan''))
      else if w = ''Infinity'' then Some (PFloat (PyFloat True ''inf''))
      else if w = ''-Infinity'' then Some (PFloat (PyFloat True ''-inf''))
      else number_value pf w)"

definition cons_tok :: "token \<Rightarrow> token list option \<Rightarrow> token list option" where
  "cons_tok t r = map_option ((#) t) r"

text \<open>
  A pending high surrogate of a \<^verbatim>\<open>\uXXXX\<close> escape waits for a low one to pair with; alone,
  it is written out in the three-byte form.
\<close>

definition flush :: "string \<Rightarrow> nat option \<Rightarrow> string" where
  "flush acc pend = (case pend of None \<Rightarrow> acc | Some h \<Rightarrow> rev (utf8_encode h) @ acc)"

definition after_unicode :: "string \<Rightarrow> nat option \<Rightarrow> nat \<Rightarrow> lexmode" where
  "after_unicode acc pend u =
     (case pend of
        Some h \<Rightarrow>
          if 56320 \<le> u \<and> u \<le> 57343
          then LStr (rev (utf8_encode (65536 + ((h - 55296) * 1024 + (u - 56320)))) @ acc) None
          else if 55296 \<le> u \<and> u \<le> 56319 then LStr (flush acc pend) (Some u)
          else LStr (rev (utf8_encode u) @ flush acc pend) None
      | None \<Rightarrow>
          if 55296 \<le> u \<and> u \<le> 56319 then LStr acc (Some u)
          else LStr (rev (utf8_encode u) @ acc) None)"

fun lex :: "(string \<Rightarrow> pyfloat) \<Rightarrow> lexmode \<Rightarrow> string \<Rightarrow> token list option" where
  "lex pf LOut [] = Some []"
| "lex pf (LWord acc) [] = map_option (\<lambda>v. [TScalar v]) (classify_word pf (rev acc))"
| "lex pf (LStr acc pend) [] = None"
| "lex pf (LEsc acc pend) [] = None"
| "lex pf (LHex acc pend n v) [] = None"
| "lex pf LOut (c # cs) =
     (if is_ws c then lex pf LOut cs
      else if c = CHR 0x22 then lex pf (LStr [] None) cs
      else case punct c of
             Some t \<Rightarrow> cons_tok t (lex pf LOut cs)
           | None \<Rightarrow> lex pf (LWord [c]) cs)"
| "lex pf (LWord acc) (c # cs) =
     (if is_ws c \<or> c = CHR 0x22 \<or> punct c \<noteq> None
      then (case classify_word pf (rev acc) of
              None \<Rightarrow> None
            | Some v \<Rightarrow>
                cons_tok (TScalar v)
                  (if is_ws c then lex pf LOut cs
                   else if c = CHR 0x22 then lex pf (LStr [] None) cs
                   else case punct c of
                          Some t \<Rightarrow> cons_tok t (lex pf LOut cs)
                        | None \<Rightarrow> None))
      else lex pf (LWord (c # acc)) cs)"
| "lex pf (LStr acc pend) (c # cs) =
     (if c = CHR 0x22 then cons_tok (TScalar (PStr (rev (flush acc pend)))) (lex pf LOut cs)
      else if c = CHR 0x5C then lex pf (LEsc acc pend) cs
      else if (of_char c :: nat) < 32 then None
      else lex pf (LStr (c # flush acc pend) None) cs)"
| "lex pf (LEsc acc pend) (c # cs) =
     (if c = CHR ''u'' then lex pf (LHex acc pend 4 0) cs
      else case unescape c of
             None \<Rightarrow> None
           | Some d \<Rightarrow> lex pf (LStr (d # flush acc pend) None) cs)"
| "lex pf (LHex acc pend n v) (c # cs) =
     (case hex_val c of
        None \<Rightarrow> None
      | Some h \<Rightarrow>
          if n \<le> 1 then lex pf (after_unicode acc pend (16 * v + h)) cs
          else lex pf (LHex acc pend (n - 1) (16 * v + h)) cs)"

datatype frame = FArr "pyval list" | FObj pydict string

datatype pstate =
    SValue "frame list"
  | SArrFirst "frame list"
  | SObjFirst "frame list"
  | SKey pydict "frame list"
  | SColon pydict string "frame list"
  | SArrNext "pyval list" "frame list"
  | SObjNext pydict "frame list"
  | SDone pyval

text \<open>A value is complete: it is the document, the next element, or the value of a key
  (a repeated key keeps its place and takes the last value, as \<^verbatim>\<open>dict(pairs)\<close> does).\<close>

definition complete :: "pyval \<Rightarrow> frame list \<Rightarrow> pstate" where
  "complete v st =
     (case st of
        [] \<Rightarrow> SDone v
      | FArr acc # st' \<Rightarrow> SArrNext (v # acc) st'
      | FObj d k # st' \<Rightarrow> SObjNext (AList.update k v d) st')"

definition value_start :: "frame list \<Rightarrow> token \<Rightarrow> pstate option" where
  "value_start st t =
     (case t of
        TScalar v \<Rightarrow> Some (complete v st)
      | TLBrack \<Rightarrow> Some (SArrFirst st)
      | TLBrace \<Rightarrow> Some (SObjFirst st)
      | _ \<Rightarrow> None)"

fun step :: "pstate \<Rightarrow> token \<Rightarrow> pstate option" where
  "step (SValue st) t = value_start st t"
| "step (SArrFirst st) t =
     (case t of TRBrack \<Rightarrow> Some (complete (PList []) st) | _ \<Rightarrow> value_start (FArr [] # st) t)"
| "step (SObjFirst st) t =
     (case t of
        TRBrace \<Rightarrow> Some (complete (PDict []) st)
      | TScalar (PStr k) \<Rightarrow> Some (SColon [] k st)
      | _ \<Rightarrow> None)"
| "step (SKey d st) t = (case t of TScalar (PStr k) \<Rightarrow> Some (SColon d k st) | _ \<Rightarrow> None)"
| "step (SColon d k st) t = (case t of TColon \<Rightarrow> Some (SValue (FObj d k # st)) | _ \<Rightarrow> None)"
| "step (SArrNext acc st) t =
     (case t of
        TComma \<Rightarrow> Some (SValue (FArr acc # st))
      | TRBrack \<Rightarrow> Some (complete (PList (rev acc)) st)
      | _ \<Rightarrow> None)"
| "step (SObjNext d st) t =
     (case t of
        TComma \<Rightarrow> Some (SKey d st)
      | TRBrace \<Rightarrow> Some (complete (PDict d) st)
      | _ \<Rightarrow> None)"
| "step (SDone v) t = None"

fun parse_tokens :: "pstate \<Rightarrow> token list \<Rightarrow> pstate option" where
  "parse_tokens s [] = Some s"
| "parse_tokens s (t # ts) = (case step s t of None \<Rightarrow> None | Some s' \<Rightarrow> parse_tokens s' ts)"

definition json_decode_error :: exn where
  "json_decode_error = Exn ''JSONDecodeError'' []"

definition json_loads :: "(string \<Rightarrow> pyfloat) \<Rightarrow> string \<Rightarrow> exn + pyval" where
  "json_loads pf s =
     (case lex pf LOut s of
        None \<Rightarrow> Inl json_decode_error
      | Some ts \<Rightarrow>
          (case parse_tokens (SValue []) ts of
             Some (SDone v) \<Rightarrow> Inr v
           | _ \<Rightarrow> Inl json_decode_error))"

subsection \<open>Encoding\<close>

definition hex4 :: "nat \<Rightarrow> string" where
  "hex4 n = [hex_char (n div 4096 mod 16), hex_char (n div 256 mod 16),
             hex_char (n div 16 mod 16), hex_char (n mod 16)]"

text \<open>\<^verbatim>\<open>ensure_ascii\<close> is on: everything outside the printable ASCII range is escaped.\<close>

definition json_escape_char :: "string \<Rightarrow> string" where
  "json_escape_char g =
     (let n = utf8_decode g
      in if g = [CHR 0x22] then [CHR 0x5C, CHR 0x22]
         else if g = [CHR 0x5C] then [CHR 0x5C, CHR 0x5C]
         else if n = 8 then [CHR 0x5C, CHR ''b'']
         else if n = 12 then [CHR 0x5C, CHR ''f'']
         else if n = 10 then [CHR 0x5C, CHR ''n'']
         else if n = 13 then [CHR 0x5C, CHR ''r'']
         else if n = 9 then [CHR 0x5C, CHR ''t'']
         else if 32 \<le> n \<and> n \<le> 126 then g
         else if n < 65536 then [CHR 0x5C, CHR ''u''] @ hex4 n
         else [CHR 0x5C, CHR ''u''] @ hex4 (55296 + (n - 65536) div 1024 mod 1024)
              @ [CHR 0x5C, CHR ''u''] @ hex4 (56320 + (n - 65536) mod 1024))"

definition json_string :: "string \<Rightarrow> string" where
  "json_string s = CHR 0x22 # concat (map json_escape_char (utf8_chars s)) @ [CHR 0x22]"

definition json_float :: "pyfloat \<Rightarrow> string" where
  "json_float f =
     (if float_repr f = ''nan'' then ''NaN''
      else if float_repr f = ''inf'' then ''Infinity''
      else if float_repr f = ''-inf'' then ''-Infinity''
      else float_repr f)"

fun json_dumps :: "pyval \<Rightarrow> string" where
  "json_dumps PNone = ''null''"
| "json_dumps (PBool b) = (if b then ''true'' else ''false'')"
| "json_dumps (PInt i) = str_int i"
| "json_dumps (PFloat f) = json_float f"
| "json_dumps (PStr s) = json_string s"
| "json_dumps (PList xs) = ''['' @ join_str '', '' (map json_dumps xs) @ '']''"
| "json_dumps (PDict d) =
     ''{'' @ join_str '', '' (map (\<lambda>kv. json_string (fst kv) @ '': '' @ json_dumps (snd kv)) d)
       @ ''}''"

section \<open>The A2A types the agent reads and writes\<close>

text \<open>
  The classes of \<^verbatim>\<open>a2a.types\<close> with the fields the agent touches. A field that may be
  \<^verbatim>\<open>None\<close> is an \<open>option\<close>. A \<^verbatim>\<open>Part\<close> wraps one of three kinds; \<^verbatim>\<open>part.root.kind\<close> is the
  constructor.
\<close>

datatype Role = Role_user | Role_agent

datatype TaskState =
    submitted | working | input_required | completed | canceled | failed
  | rejected | auth_required | unknown

datatype Part =
    TextPart string "pydict option"
  | FilePart string "pydict option"
  | DataPart pydict "pydict option"

record Message =
  msg_role :: Role
  msg_parts :: "Part list"
  msg_messageId :: string
  msg_kind :: string
  msg_taskId :: "string option"
  msg_contextId :: "string option"

record Artifact =
  art_artifactId :: string
  art_parts :: "Part list"
  art_name :: "string option"
  art_description :: "string option"

record TaskStatus =
  status_state :: TaskState
  status_message :: "Message option"
  status_timestamp :: "string option"

record Task =
  task_id :: string
  task_contextId :: string
  task_status :: TaskStatus
  task_history :: "Message list option"
  task_artifacts :: "Artifact list option"
  task_kind :: string

text \<open>
  What the agent calls outside itself, over a world \<open>'w\<close> that each call may change:
  the Strands agent (the call and \<^verbatim>\<open>str\<close> of its response; it returns text or raises),
  \<^verbatim>\<open>str(uuid.uuid4())\<close>, \<^verbatim>\<open>datetime.utcnow().isoformat()\<close> and \<^verbatim>\<open>float\<close>.
\<close>

record 'w runtime =
  strands_agent :: "string \<Rightarrow> 'w \<Rightarrow> (exn + string) \<times> 'w"
  uuid4 :: "'w \<Rightarrow> string \<times> 'w"
  utcnow :: "'w \<Rightarrow> string \<times> 'w"
  py_float :: "string \<Rightarrow> pyfloat"

section \<open>Input extraction\<close>

text \<open>The body of the loop over the parts of the latest user message.\<close>

fun process_part :: "Part \<Rightarrow> pydict \<Rightarrow> pydict" where
  "process_part (TextPart t md) input_data = AList.update ''userContext'' (PStr t) input_data"
| "process_part (FilePart f md) input_data = input_data"
| "process_part (DataPart data md) input_data =
     (if data \<noteq> [] then
        (let d1 = AList.update ''sector'' (py_get data ''sector'' (PStr ''UNKNOWN_SECTOR'')) input_data;
             d2 = AList.update ''focus'' (py_get data ''focus'' (PStr ''UNKNOWN_FOCUS'')) d1;
             d3 = AList.update ''riskFactors'' (py_get data ''riskFactors'' (PList [])) d2;
             d4 = AList.update ''summaryLength'' (py_get data ''summaryLength'' (PInt 200)) d3
         in case map_of data ''extraContext'' of
              Some v \<Rightarrow> AList.update ''extraContext'' v d4
            | None \<Rightarrow> d4)
      else input_data)"

definition extract_user_input_from_task :: "Task option \<Rightarrow> pydict" where
  "extract_user_input_from_task task =
     (case task of
        None \<Rightarrow> [(''error'', PStr ''No task or history found'')]
      | Some t \<Rightarrow>
          (case task_history t of
             None \<Rightarrow> [(''error'', PStr ''No task or history found'')]
           | Some [] \<Rightarrow> [(''error'', PStr ''No task or history found'')]
           | Some history \<Rightarrow>
               (let user_messages = filter (\<lambda>msg. msg_role msg = Role_user) history
                in if user_messages = [] then [(''error'', PStr ''No user messages found'')]
                   else fold process_part (msg_parts (last user_messages)) [])))"

section \<open>The prompt builder\<close>

text \<open>
  \<^verbatim>\<open>", ".join(x)\<close> for an arbitrary object \<open>x\<close>: a list gives its items, a \<^verbatim>\<open>str\<close> its
  characters, a \<^verbatim>\<open>dict\<close> its keys, anything else is not iterable; an item that is not a
  \<^verbatim>\<open>str\<close> is a \<^verbatim>\<open>TypeError\<close>.
\<close>

definition py_iter :: "pyval \<Rightarrow> exn + pyval list" where
  "py_iter v =
     (case v of
        PList xs \<Rightarrow> Inr xs
      | PStr s \<Rightarrow> Inr (map PStr (utf8_chars s))
      | PDict d \<Rightarrow> Inr (map (\<lambda>kv. PStr (fst kv)) d)
      | _ \<Rightarrow> Inl (Exn ''TypeError'' ''can only join an iterable''))"

fun join_items :: "nat \<Rightarrow> pyval list \<Rightarrow> exn + string list" where
  "join_items i [] = Inr []"
| "join_items i (PStr s # xs) =
     (case join_items (Suc i) xs of Inl e \<Rightarrow> Inl e | Inr ss \<Rightarrow> Inr (s # ss))"
| "join_items i (x # xs) =
     Inl (Exn ''TypeError''
       (''sequence item '' @ str_nat i @ '': expected str instance, '' @ py_type_name x @ '' found''))"

definition py_join :: "string \<Rightarrow> pyval \<Rightarrow> exn + string" where
  "py_join sep v =
     (case py_iter v of
        Inl e \<Rightarrow> Inl e
      | Inr items \<Rightarrow> (case join_items 0 items of Inl e \<Rightarrow> Inl e | Inr ss \<Rightarrow> Inr (join_str sep ss)))"

definition build_prompt :: "pydict \<Rightarrow> exn + string" where
  "build_prompt inp =
     (let extra_context = py_get inp ''extraContext'' PNone;
          user_context = py_get inp ''userContext'' PNone;
          sector = py_get inp ''sector'' (PStr ''technology sector'');
          focus = py_get inp ''focus'' (PStr ''overall outlook'');
          risk_factors = py_get inp ''riskFactors'' (PList []);
          summary_length = py_get inp ''summaryLength'' (PInt 150)
      in case (if py_truthy risk_factors then py_join '', '' risk_factors
               else Inr ''market uncertainty'') of
           Inl e \<Rightarrow> Inl e
         | Inr risks \<Rightarrow>
             (let prompt =
                ''Knowing the user request: '' @ py_str user_context @ ''. ''
                @ ''Write a concise, coherent, and natural-sounding market summary (about ''
                @ py_str summary_length @ '' words) for the '' @ py_str sector @ '' sector. ''
                @ ''Focus on '' @ py_str focus
                @ ''. Discuss key trends, opportunities, and threats in a single paragraph. ''
                @ ''If the user request has the intention of making a trade but did not specify which stock or company, ''
                @ ''then the summary should name out what is the company that matches user description for investment. ''
                @ ''Do NOT include a title, bullet points, or any formatting''
                @ [CHR 0xE2, CHR 0x80, CHR 0x94]
                @ ''write in natural English prose only. ''
                @ ''Consider risk factors such as: '' @ risks @ ''.''
              in Inr (if py_truthy extra_context
                      then prompt @ '' Here is more context: '' @ py_str extra_context @ ''.''
                      else prompt)))"

section \<open>Tag and sentiment extraction\<close>

definition tag_prompt :: "string \<Rightarrow> string" where
  "tag_prompt summary =
     ''Analyze the following market summary and return exactly 4-7 key themes as a list of ''
     @ [CHR 0x27] @ ''tags'' @ [CHR 0x27] @ '', ''
     @ ''and the overall sentiment (positive, neutral, or negative) for investors. ''
     @ ''Respond with nothing except a single JSON object with this format:'' @ [CHR 0x0A]
     @ ''{\"tags\": [\"tag1\", \"tag2\", \"tag3\"], \"sentiment\": \"positive\"}'' @ [CHR 0x0A]
     @ ''No title. No explanation. No extra text.'' @ [CHR 0x0A, CHR 0x0A]
     @ ''Summary:'' @ [CHR 0x0A, CHR 0x22] @ summary @ [CHR 0x22]"

text \<open>
  \<^verbatim>\<open>re.search(r'\{[\s\S]*?}', result)\<close> and \<^verbatim>\<open>match.group()\<close>: the leftmost match starts at
  the first \<^verbatim>\<open>{\<close> that has a \<^verbatim>\<open>}\<close> somewhere after it, which is the first \<^verbatim>\<open>{\<close> of the
  text or none at all; the lazy star stops at the first \<^verbatim>\<open>}\<close> after it.
\<close>

definition re_search_brace :: "string \<Rightarrow> string option" where
  "re_search_brace result =
     (case dropWhile (\<lambda>c. c \<noteq> CHR ''{'') result of
        [] \<Rightarrow> None
      | c # rest \<Rightarrow>
          if CHR ''}'' \<in> set rest
          then Some (c # takeWhile (\<lambda>c. c \<noteq> CHR ''}'') rest @ ''}'')
          else None)"

text \<open>\<^verbatim>\<open>parsed.get(key, default)\<close> on whatever \<^verbatim>\<open>json.loads\<close> returned: only a \<^verbatim>\<open>dict\<close> has
  the method.\<close>

definition get_method :: "pyval \<Rightarrow> string \<Rightarrow> pyval \<Rightarrow> exn + pyval" where
  "get_method parsed k dflt =
     (case parsed of
        PDict d \<Rightarrow> Inr (py_get d k dflt)
      | _ \<Rightarrow> Inl (Exn ''AttributeError''
               ([CHR 0x27] @ py_type_name parsed @ [CHR 0x27] @ '' object has no attribute ''
                @ [CHR 0x27] @ ''get'' @ [CHR 0x27])))"

definition isinstance_list :: "pyval \<Rightarrow> bool" where
  "isinstance_list v = (case v of PList xs \<Rightarrow> True | _ \<Rightarrow> False)"

definition isinstance_str :: "pyval \<Rightarrow> bool" where
  "isinstance_str v = (case v of PStr s \<Rightarrow> True | _ \<Rightarrow> False)"

text \<open>The inner \<^verbatim>\<open>try\<close> of \<^verbatim>\<open>extract_tags\<close>: the direct parse, and in its handler the parse of
  the brace match, or the empty \<^verbatim>\<open>dict\<close> without a match.\<close>

definition parse_result :: "(string \<Rightarrow> pyfloat) \<Rightarrow> string \<Rightarrow> exn + pyval" where
  "parse_result pf result =
     try_except (json_loads pf result)
       (\<lambda>e. case re_search_brace result of
               Some m \<Rightarrow> json_loads pf m
             | None \<Rightarrow> Inr (PDict []))"

text \<open>The lines of the outer \<^verbatim>\<open>try\<close> after the model has answered \<open>result\<close>.\<close>

definition tags_of_result :: "(string \<Rightarrow> pyfloat) \<Rightarrow> string \<Rightarrow> exn + pydict" where
  "tags_of_result pf result =
     (case parse_result pf result of
        Inl e \<Rightarrow> Inl e
      | Inr parsed \<Rightarrow>
          (case get_method parsed ''tags'' (PList []) of
             Inl e \<Rightarrow> Inl e
           | Inr tags \<Rightarrow>
               (case get_method parsed ''sentiment'' (PStr ''unknown'') of
                  Inl e \<Rightarrow> Inl e
                | Inr sentiment \<Rightarrow>
                    (let tags' = (if \<not> isinstance_list tags
                                  then (if py_truthy tags then PList [tags] else PList [])
                                  else tags);
                         sentiment' = (if \<not> isinstance_str sentiment
                                       then PStr (py_str sentiment) else sentiment)
                     in Inr [(''tags'', tags'), (''sentiment'', sentiment')]))))"

definition extract_tags :: "'w runtime \<Rightarrow> string \<Rightarrow> 'w \<Rightarrow> (exn + pydict) \<times> 'w" where
  "extract_tags rt summary w =
     (case strands_agent rt (tag_prompt summary) w of
        (r, w') \<Rightarrow>
          (try_except
             (case r of Inl e \<Rightarrow> Inl e | Inr result \<Rightarrow> tags_of_result (py_float rt) result)
             (\<lambda>e. Inr [(''tags'', PList []), (''sentiment'', PStr ''unknown'')]),
           w'))"

section \<open>The orchestration\<close>

text \<open>\<^verbatim>\<open>task.artifacts or []\<close>\<close>

definition artifacts_or_empty :: "Task \<Rightarrow> Artifact list" where
  "artifacts_or_empty task = (case task_artifacts task of None \<Rightarrow> [] | Some xs \<Rightarrow> xs)"

text \<open>The body of the \<^verbatim>\<open>try\<close> of \<^verbatim>\<open>analyze\<close>. The task is written only in its last lines,
  after everything that can raise, so the handler starts from the task as it came.\<close>

definition analyze_try :: "'w runtime \<Rightarrow> Task \<Rightarrow> string \<Rightarrow> 'w \<Rightarrow> (exn + Task) \<times> 'w" where
  "analyze_try rt task prompt w =
     (case strands_agent rt prompt w of
        (Inl e, w1) \<Rightarrow> (Inl e, w1)
      | (Inr summary, w1) \<Rightarrow>
          (case extract_tags rt summary w1 of
             (Inl e, w2) \<Rightarrow> (Inl e, w2)
           | (Inr tag_data, w2) \<Rightarrow>
               (let parts = [TextPart summary (Some []), DataPart tag_data (Some [])];
                    (artifactId, w3) = uuid4 rt w2;
                    artifact = \<lparr>art_artifactId = artifactId, art_parts = parts,
                                art_name = Some ''Market Summary'',
                                art_description = Some ''Summary and tags generated by LLM''\<rparr>;
                    (messageId, w4) = uuid4 rt w3;
                    msg = \<lparr>msg_role = Role_agent,
                           msg_parts = [TextPart ''Market summary successfully generated.'' (Some [])],
                           msg_messageId = messageId, msg_kind = ''message'',
                           msg_taskId = Some (task_id task),
                           msg_contextId = Some (task_contextId task)\<rparr>;
                    (now, w5) = utcnow rt w4;
                    status = \<lparr>status_state = completed, status_message = Some msg,
                              status_timestamp = Some (now @ ''Z'')\<rparr>
                in (Inr (task\<lparr>task_status := status,
                              task_artifacts := Some (artifacts_or_empty task @ [artifact]),
                              task_kind := ''task''\<rparr>), w5))))"

text \<open>The handler \<^verbatim>\<open>except Exception as e\<close> of \<^verbatim>\<open>analyze\<close>.\<close>

definition analyze_except :: "'w runtime \<Rightarrow> Task \<Rightarrow> exn \<Rightarrow> 'w \<Rightarrow> (exn + Task) \<times> 'w" where
  "analyze_except rt task e w =
     (let error_parts = [TextPart (exn_str e) (Some [])];
          (artifactId, w1) = uuid4 rt w;
          artifact = \<lparr>art_artifactId = artifactId, art_parts = error_parts,
                      art_name = Some ''Error'',
                      art_description = Some ''Error encountered during market analysis''\<rparr>;
          (messageId, w2) = uuid4 rt w1;
          error_msg = \<lparr>msg_role = Role_agent, msg_parts = error_parts,
                       msg_messageId = messageId, msg_kind = ''message'',
                       msg_taskId = Some (task_id task),
                       msg_contextId = Some (task_contextId task)\<rparr>;
          (now, w3) = utcnow rt w2;
          status = \<lparr>status_state = failed, status_message = Some error_msg,
                    status_timestamp = Some (now @ ''Z'')\<rparr>
      in (Inr (task\<lparr>task_status := status,
                    task_artifacts := Some (artifacts_or_empty task @ [artifact]),
                    task_kind := ''task''\<rparr>), w3))"

text \<open>\<^verbatim>\<open>analyze\<close>: the input is extracted and the prompt built before the \<^verbatim>\<open>try\<close>.\<close>

definition analyze :: "'w runtime \<Rightarrow> Task \<Rightarrow> 'w \<Rightarrow> (exn + Task) \<times> 'w" where
  "analyze rt task w =
     (let prompt_input = extract_user_input_from_task (Some task)
      in case build_prompt prompt_input of
           Inl e \<Rightarrow> (Inl e, w)
         | Inr prompt \<Rightarrow>
             (case analyze_try rt task prompt w of
                (Inl e, w') \<Rightarrow> analyze_except rt task e w'
              | (Inr task', w') \<Rightarrow> (Inr task', w')))"

section \<open>The agent card\<close>

text \<open>\<^verbatim>\<open>obj[key]\<close> with a \<^verbatim>\<open>str\<close> key.\<close>

definition py_subscript :: "pyval \<Rightarrow> string \<Rightarrow> exn + pyval" where
  "py_subscript obj k =
     (case obj of
        PDict d \<Rightarrow> (case map_of d k of Some v \<Rightarrow> Inr v | None \<Rightarrow> Inl (Exn ''KeyError'' (repr_str k)))
      | PList xs \<Rightarrow> Inl (Exn ''TypeError'' ''list indices must be integers or slices, not str'')
      | PStr s \<Rightarrow> Inl (Exn ''TypeError''
                   (''string indices must be integers, not '' @ [CHR 0x27] @ ''str'' @ [CHR 0x27]))
      | _ \<Rightarrow> Inl (Exn ''TypeError''
               ([CHR 0x27] @ py_type_name obj @ [CHR 0x27] @ '' object is not subscriptable'')))"

text \<open>\<^verbatim>\<open>os.environ.get(name, default)\<close>\<close>

definition environ_get :: "(string \<rightharpoonup> string) \<Rightarrow> string \<Rightarrow> string \<Rightarrow> string" where
  "environ_get environ name dflt = (case environ name of Some v \<Rightarrow> v | None \<Rightarrow> dflt)"

definition agent_card :: "string \<Rightarrow> string \<Rightarrow> string \<Rightarrow> pydict" where
  "agent_card domain region model_id =
     [(''id'', PStr ''market-analysis-agent''),
      (''name'', PStr ''MarketAnalysisAgent''),
      (''description'',
         PStr ''Provides market analysis summaries and sentiment insights via Bedrock.''),
      (''protocol'', PStr ''A2A/1.0''),
      (''skills'', PList [PStr ''MarketSummary'']),
      (''endpoints'', PDict [(''send'', PStr (''https://'' @ domain @ ''/dev/tasks/send''))]),
      (''metadata'',
         PDict [(''streaming'', PBool True), (''modelId'', PStr model_id),
                (''region'', PStr region), (''provider'', PStr ''Bedrock/Anthropic'')])]"

definition lambda_handler :: "pydict \<Rightarrow> pyval \<Rightarrow> (string \<rightharpoonup> string) \<Rightarrow> exn + pydict" where
  "lambda_handler event context environ =
     (case py_subscript (PDict event) ''requestContext'' of
        Inl e \<Rightarrow> Inl e
      | Inr rc \<Rightarrow>
          (case py_subscript rc ''domainName'' of
             Inl e \<Rightarrow> Inl e
           | Inr domain \<Rightarrow>
               (let region = environ_get environ ''AWS_REGION'' ''us-east-1'';
                    model_id = environ_get environ ''BEDROCK_MODEL_ID''
                                 ''us.anthropic.claude-3-5-haiku-20241022-v1:0''
                in Inr [(''statusCode'', PInt 200),
                        (''body'', PStr (json_dumps (PDict (agent_card (py_str domain) region model_id)))),
                        (''headers'', PDict [(''Content-Type'', PStr ''application/json'')])])))"

section \<open>Notions used to state the properties\<close>

text \<open>The message \<^verbatim>\<open>user_messages[-1]\<close> that extraction reads, when there is one.\<close>

definition latest_user_message :: "Task \<Rightarrow> Message option" where
  "latest_user_message task =
     (case task_history task of
        None \<Rightarrow> None
      | Some history \<Rightarrow>
          (case filter (\<lambda>msg. msg_role msg = Role_user) history of
             [] \<Rightarrow> None
           | m # ms \<Rightarrow> Some (last (m # ms))))"

text \<open>The data of the last data part of a message that is not the empty \<^verbatim>\<open>dict\<close>.\<close>

fun last_data :: "Part list \<Rightarrow> pydict option" where
  "last_data [] = None"
| "last_data (p # ps) =
     (case last_data ps of
        Some d \<Rightarrow> Some d
      | None \<Rightarrow> (case p of DataPart d md \<Rightarrow> if d \<noteq> [] then Some d else None | _ \<Rightarrow> None))"

text \<open>The result \<^verbatim>\<open>extract_tags\<close> falls back to.\<close>

definition default_tags :: pydict where
  "default_tags = [(''tags'', PList []), (''sentiment'', PStr ''unknown'')]"

text \<open>
  The result normalization in the words of the specification: tags that are not a
  sequence become a single-element list when truthy and the empty list otherwise; a
  sentiment that is not a string becomes its string representation; a missing key takes
  its default.
\<close>

definition normalized_tags :: "pydict \<Rightarrow> pyval list" where
  "normalized_tags parsed =
     (case map_of parsed ''tags'' of
        None \<Rightarrow> []
      | Some (PList xs) \<Rightarrow> xs
      | Some v \<Rightarrow> if py_truthy v then [v] else [])"

definition normalized_sentiment :: "pydict \<Rightarrow> string" where
  "normalized_sentiment parsed =
     (case map_of parsed ''sentiment'' of
        None \<Rightarrow> ''unknown''
      | Some (PStr s) \<Rightarrow> s
      | Some v \<Rightarrow> py_str v)"

definition normalized :: "pyval \<Rightarrow> pydict" where
  "normalized v =
     (case v of
        PDict parsed \<Rightarrow>
          [(''tags'', PList (normalized_tags parsed)),
           (''sentiment'', PStr (normalized_sentiment parsed))]
      | _ \<Rightarrow> default_tags)"

text \<open>
  The parsing policy in the words of the specification, on the outcome of the model
  call: the direct parse of the whole response; failing that, the parse of the first
  brace-delimited substring; failing that, or without braces, or when the call itself
  raised, the default.
\<close>

definition first_brace_substring :: "string \<Rightarrow> string \<Rightarrow> bool" where
  "first_brace_substring text s =
     (\<exists>pre body post. text = pre @ ''{'' @ body @ ''}'' @ post
        \<and> CHR ''{'' \<notin> set pre \<and> CHR ''}'' \<notin> set body \<and> s = ''{'' @ body @ ''}'')"

definition parsing_policy :: "(string \<Rightarrow> pyfloat) \<Rightarrow> exn + string \<Rightarrow> pydict" where
  "parsing_policy pf response =
     (case response of
        Inl e \<Rightarrow> default_tags
      | Inr text \<Rightarrow>
          (case json_loads pf text of
             Inr v \<Rightarrow> normalized v
           | Inl e \<Rightarrow>
               (case re_search_brace text of
                  None \<Rightarrow> default_tags
                | Some s \<Rightarrow>
                    (case json_loads pf s of
                       Inr v \<Rightarrow> normalized v
                     | Inl e' \<Rightarrow> default_tags))))"

subsection \<open>Concrete runs\<close>

text \<open>A runtime whose model answers from a script, one entry per call, and whose clock
  and identifiers are fixed.\<close>

definition scripted :: "(exn + string) list runtime" where
  "scripted =
     \<lparr>strands_agent =
        (\<lambda>prompt w. case w of
                       [] \<Rightarrow> (Inl (Exn ''RuntimeError'' ''script exhausted''), [])
                     | r # rs \<Rightarrow> (r, rs)),
      uuid4 = (\<lambda>w. (''123e4567-e89b-42d3-a456-426614174000'', w)),
      utcnow = (\<lambda>w. (''2025-06-01T12:00:00.000000'', w)),
      py_float = (\<lambda>s. PyFloat True s)\<rparr>"

text \<open>A submitted task whose history is one user message with the given parts.\<close>

definition user_task :: "Part list \<Rightarrow> Task" where
  "user_task ps =
     \<lparr>task_id = ''task-1'', task_contextId = ''ctx-1'',
      task_status = \<lparr>status_state = submitted, status_message = None, status_timestamp = None\<rparr>,
      task_history =
        Some [\<lparr>msg_role = Role_user, msg_parts = ps, msg_messageId = ''msg-1'',
               msg_kind = ''message'', msg_taskId = Some ''task-1'',
               msg_contextId = Some ''ctx-1''\<rparr>],
      task_artifacts = None, task_kind = ''task''\<rparr>"

definition energy_data :: pydict where
  "energy_data =
     [(''sector'', PStr ''energy''), (''focus'', PStr ''renewables''),
      (''riskFactors'', PList [PStr ''regulation'', PStr ''oil prices'']),
      (''summaryLength'', PInt 100)]"

definition fallback_response :: string where
  "fallback_response =
     ''Here is the result: {\"tags\":[\"a\",\"b\",\"c\",\"d\"],\"sentiment\":\"positive\"}''"

definition eight_tags_response :: string where
  "eight_tags_response =
     ''{\"tags\":[\"a\",\"b\",\"c\",\"d\",\"e\",\"f\",\"g\",\"h\"],\"sentiment\":\"neutral\"}''"

text \<open>The prompt built from an input without any of the fields: every default applies.\<close>

definition default_prompt :: string where
  "default_prompt =
     ''Knowing the user request: None. ''
     @ ''Write a concise, coherent, and natural-sounding market summary (about 150 words) for the technology sector sector. ''
     @ ''Focus on overall outlook. Discuss key trends, opportunities, and threats in a single paragraph. ''
     @ ''If the user request has the intention of making a trade but did not specify which stock or company, ''
     @ ''then the summary should name out what is the company that matches user description for investment. ''
     @ ''Do NOT include a title, bullet points, or any formatting''
     @ [CHR 0xE2, CHR 0x80, CHR 0x94]
     @ ''write in natural English prose only. ''
     @ ''Consider risk factors such as: market uncertainty.''"

text \<open>The prompt for the task \<open>user_task [DataPart energy_data None]\<close>.\<close>

definition energy_prompt :: string where
  "energy_prompt =
     ''Knowing the user request: None. ''
     @ ''Write a concise, coherent, and natural-sounding market summary (about 100 words) for the energy sector. ''
     @ ''Focus on renewables. Discuss key trends, opportunities, and threats in a single paragraph. ''
     @ ''If the user request has the intention of making a trade but did not specify which stock or company, ''
     @ ''then the summary should name out what is the company that matches user description for investment. ''
     @ ''Do NOT include a title, bullet points, or any formatting''
     @ [CHR 0xE2, CHR 0x80, CHR 0x94]
     @ ''write in natural English prose only. ''
     @ ''Consider risk factors such as: regulation, oil prices.''"

definition scalar_tags_response :: string where
  "scalar_tags_response = ''{\"tags\": \"solo\", \"sentiment\": 5}''"

section \<open>Input extraction: what the loop over the parts leaves\<close>

lemma fold_process_part_key:
  assumes "(k, dflt) \<in> {(''sector'', PStr ''UNKNOWN_SECTOR''), (''focus'', PStr ''UNKNOWN_FOCUS''),
                        (''riskFactors'', PList []), (''summaryLength'', PInt 200)}"
  shows "map_of (fold process_part ps inp) k =
           (case last_data ps of None \<Rightarrow> map_of inp k | Some d \<Rightarrow> Some (py_get d k dflt))"
  using assms
proof (induction ps arbitrary: inp)
  case Nil
  then show ?case by simp
next
  case (Cons p ps)
  show ?case
  proof (cases "last_data ps")
    case None
    then show ?thesis using Cons.IH[OF Cons.prems, of "process_part p inp"] Cons.prems
      by (cases p) (auto simp: update_conv' Let_def split: option.splits)
  next
    case (Some d)
    then show ?thesis using Cons.IH[OF Cons.prems, of "process_part p inp"] by simp
  qed
qed

section \<open>The prompt: when it is built and what it contains\<close>

lemma build_prompt_raises:
  "build_prompt inp = Inl e \<longleftrightarrow>
     py_truthy (py_get inp ''riskFactors'' (PList []))
     \<and> py_join '', '' (py_get inp ''riskFactors'' (PList [])) = Inl e"
  by (auto simp: build_prompt_def Let_def split: sum.splits)

lemma build_prompt_shape:
  assumes "build_prompt inp = Inr p"
  shows "\<exists>risks tail.
     (if py_truthy (py_get inp ''riskFactors'' (PList []))
      then py_join '', '' (py_get inp ''riskFactors'' (PList []))
      else Inr ''market uncertainty'') = Inr risks
     \<and> p = (''Knowing the user request: '' @ py_str (py_get inp ''userContext'' PNone)
            @ ''. Write a concise, coherent, and natural-sounding market summary '')
          @ (''(about '' @ py_str (py_get inp ''summaryLength'' (PInt 150)) @ '' words)'')
          @ '' ''
          @ (''for the '' @ py_str (py_get inp ''sector'' (PStr ''technology sector'')) @ '' sector.'')
          @ '' ''
          @ (''Focus on '' @ py_str (py_get inp ''focus'' (PStr ''overall outlook'')) @ ''.'')
          @ ('' Discuss key trends, opportunities, and threats in a single paragraph. ''
             @ ''If the user request has the intention of making a trade but did not specify which stock or company, ''
             @ ''then the summary should name out what is the company that matches user description for investment. ''
             @ ''Do NOT include a title, bullet points, or any formatting''
             @ [CHR 0xE2, CHR 0x80, CHR 0x94]
             @ ''write in natural English prose only. '')
          @ (''Consider risk factors such as: '' @ risks @ ''.'')
          @ tail"
proof -
  let ?rf = "py_get inp ''riskFactors'' (PList [])"
  let ?ec = "py_get inp ''extraContext'' PNone"
  from assms obtain risks where
    r: "(if py_truthy ?rf then py_join '', '' ?rf else Inr ''market uncertainty'') = Inr risks"
    by (cases "(if py_truthy ?rf then py_join '', '' ?rf else Inr ''market uncertainty'')")
       (auto simp: build_prompt_def Let_def)
  let ?tail = "if py_truthy ?ec then '' Here is more context: '' @ py_str ?ec @ ''.'' else []"
  from assms r show ?thesis
    apply (rule_tac x = risks in exI)
    apply (rule_tac x = ?tail in exI)
    apply (rule conjI)
     apply assumption
    apply (cases "py_truthy (py_get inp ''extraContext'' PNone)")
     apply (auto simp add: build_prompt_def Let_def)
    done
qed

lemma sublist_segments:
  assumes "p = x1 @ s1 @ x2 @ s2 @ x3 @ s3 @ x4 @ s4 @ t"
  shows "sublist s1 p" "sublist s2 p" "sublist s3 p" "sublist s4 p"
proof -
  show "sublist s1 p" unfolding assms by (rule sublist_appendI)
  have "p = (x1 @ s1 @ x2) @ s2 @ (x3 @ s3 @ x4 @ s4 @ t)" by (simp add: assms)
  then show "sublist s2 p" using sublist_appendI by metis
  have "p = (x1 @ s1 @ x2 @ s2 @ x3) @ s3 @ (x4 @ s4 @ t)" by (simp add: assms)
  then show "sublist s3 p" using sublist_appendI by metis
  have "p = (x1 @ s1 @ x2 @ s2 @ x3 @ s3 @ x4) @ s4 @ t" by (simp add: assms)
  then show "sublist s4 p" using sublist_appendI by metis
qed

lemma build_prompt_length:
  "build_prompt inp = Inr p \<Longrightarrow>
   sublist (''(about '' @ py_str (py_get inp ''summaryLength'' (PInt 150)) @ '' words)'') p"
  using build_prompt_shape sublist_segments(1) by blast

lemma build_prompt_sector:
  "build_prompt inp = Inr p \<Longrightarrow>
   sublist (''for the '' @ py_str (py_get inp ''sector'' (PStr ''technology sector'')) @ '' sector.'') p"
  using build_prompt_shape sublist_segments(2) by blast

lemma build_prompt_focus:
  "build_prompt inp = Inr p \<Longrightarrow>
   sublist (''Focus on '' @ py_str (py_get inp ''focus'' (PStr ''overall outlook'')) @ ''.'') p"
  using build_prompt_shape sublist_segments(3) by blast

lemma build_prompt_risks:
  "build_prompt inp = Inr p \<Longrightarrow>
   \<exists>risks. (if py_truthy (py_get inp ''riskFactors'' (PList []))
      then py_join '', '' (py_get inp ''riskFactors'' (PList []))
      else Inr ''market uncertainty'') = Inr risks
    \<and>  sublist (''Consider risk factors such as: '' @ risks @ ''.'') p"
  using build_prompt_shape sublist_segments(4) by blast

section \<open>Extraction from a task\<close>

lemma extract_unfold:
  "extract_user_input_from_task (Some task) =
     (case task_history task of
        None \<Rightarrow> [(''error'', PStr ''No task or history found'')]
      | Some history \<Rightarrow>
          if history = [] then [(''error'', PStr ''No task or history found'')]
          else if filter (\<lambda>msg. msg_role msg = Role_user) history = []
          then [(''error'', PStr ''No user messages found'')]
          else fold process_part
                 (msg_parts (last (filter (\<lambda>msg. msg_role msg = Role_user) history))) [])"
  by (simp add: extract_user_input_from_task_def Let_def del: filter.simps
           split: option.splits list.splits)

lemma latest_user_message_unfold:
  "latest_user_message task =
     (case task_history task of
        None \<Rightarrow> None
      | Some history \<Rightarrow>
          if filter (\<lambda>msg. msg_role msg = Role_user) history = [] then None
          else Some (last (filter (\<lambda>msg. msg_role msg = Role_user) history)))"
  by (simp add: latest_user_message_def del: filter.simps split: option.splits list.splits)

lemma extract_latest:
  "latest_user_message task = Some m \<Longrightarrow>
   extract_user_input_from_task (Some task) = fold process_part (msg_parts m) []"
  unfolding extract_unfold latest_user_message_unfold
  by (auto split: option.splits if_splits)

lemma extract_no_latest:
  "latest_user_message task = None \<Longrightarrow>
   extract_user_input_from_task (Some task) = [(''error'', PStr ''No task or history found'')]
   \<or> extract_user_input_from_task (Some task) = [(''error'', PStr ''No user messages found'')]"
  unfolding extract_unfold latest_user_message_unfold
  by (auto split: option.splits if_splits)

lemma extract_key:
  assumes "(k, dflt) \<in> {(''sector'', PStr ''UNKNOWN_SECTOR''), (''focus'', PStr ''UNKNOWN_FOCUS''),
                        (''riskFactors'', PList []), (''summaryLength'', PInt 200)}"
  shows "map_of (extract_user_input_from_task (Some task)) k =
           (case latest_user_message task of
              None \<Rightarrow> None
            | Some m \<Rightarrow> (case last_data (msg_parts m) of
                           None \<Rightarrow> None
                         | Some d \<Rightarrow> Some (py_get d k dflt)))"
proof (cases "latest_user_message task")
  case None
  from extract_no_latest[OF None] assms show ?thesis using None by auto
next
  case (Some m)
  show ?thesis
    using fold_process_part_key[OF assms, of "msg_parts m" "[]"]
    by (simp add: Some extract_latest[OF Some] split: option.splits)
qed

section \<open>Tag extraction\<close>

lemma tags_of_result_normalized:
  "tags_of_result pf result =
     (case parse_result pf result of
        Inl e \<Rightarrow> Inl e
      | Inr (PDict parsed) \<Rightarrow> Inr (normalized (PDict parsed))
      | Inr v \<Rightarrow> Inl (Exn ''AttributeError''
           ([CHR 0x27] @ py_type_name v @ [CHR 0x27] @ '' object has no attribute ''
            @ [CHR 0x27] @ ''get'' @ [CHR 0x27])))"
  by (auto simp: tags_of_result_def get_method_def normalized_def normalized_tags_def
        normalized_sentiment_def py_get_def isinstance_list_def isinstance_str_def Let_def
      split: sum.splits pyval.splits option.splits)

lemma normalized_non_dict:
  "(\<And>d. v \<noteq> PDict d) \<Longrightarrow> normalized v = default_tags"
  by (cases v) (auto simp: normalized_def)

lemma normalized_empty: "normalized (PDict []) = default_tags"
  by (simp add: normalized_def normalized_tags_def normalized_sentiment_def default_tags_def)

lemma extract_tags_policy:
  "extract_tags rt summary w =
     (Inr (parsing_policy (py_float rt) (fst (strands_agent rt (tag_prompt summary) w))),
      snd (strands_agent rt (tag_prompt summary) w))"
proof -
  obtain r w' where c: "strands_agent rt (tag_prompt summary) w = (r, w')"
    by (cases "strands_agent rt (tag_prompt summary) w")
  show ?thesis
  proof (cases r)
    case (Inl e)
    then show ?thesis
      by (simp add: extract_tags_def c try_except_def parsing_policy_def default_tags_def)
  next
    case (Inr result)
    have "try_except (tags_of_result (py_float rt) result) (\<lambda>e. Inr default_tags)
            = Inr (parsing_policy (py_float rt) (Inr result))"
      by (auto simp: tags_of_result_normalized parse_result_def try_except_def parsing_policy_def
            normalized_empty normalized_non_dict
          split: sum.splits pyval.splits option.splits)
    then show ?thesis
      by (simp add: extract_tags_def c Inr default_tags_def)
  qed
qed

lemma normalized_shape:
  "\<exists>tags sentiment. normalized v = [(''tags'', PList tags), (''sentiment'', PStr sentiment)]"
  by (cases v) (auto simp: normalized_def default_tags_def)

lemma parsing_policy_shape:
  "\<exists>tags sentiment. parsing_policy pf r = [(''tags'', PList tags), (''sentiment'', PStr sentiment)]"
  using normalized_shape
  by (auto simp: parsing_policy_def default_tags_def split: sum.splits option.splits)

lemma re_search_brace_first:
  "re_search_brace text = Some s \<longleftrightarrow> first_brace_substring text s"
proof
  assume a: "re_search_brace text = Some s"
  let ?pre = "takeWhile (\<lambda>c. c \<noteq> CHR ''{'') text"
  from a obtain c rest where d: "dropWhile (\<lambda>c. c \<noteq> CHR ''{'') text = c # rest"
    and r: "CHR ''}'' \<in> set rest"
    and s: "s = c # takeWhile (\<lambda>c. c \<noteq> CHR ''}'') rest @ ''}''"
    by (auto simp: re_search_brace_def split: list.splits if_splits)
  from d have c: "c = CHR ''{''" using hd_dropWhile[of "\<lambda>c. c \<noteq> CHR ''{''" "text"] by force
  let ?body = "takeWhile (\<lambda>c. c \<noteq> CHR ''}'') rest"
  let ?post' = "dropWhile (\<lambda>c. c \<noteq> CHR ''}'') rest"
  from r have ne: "?post' \<noteq> []" by auto
  then have h: "hd ?post' = CHR ''}''" using hd_dropWhile[of "\<lambda>c. c \<noteq> CHR ''}''" rest] by simp
  from ne h obtain post where p: "?post' = CHR ''}'' # post" by (cases ?post') auto
  have "text = ?pre @ c # rest" using d takeWhile_dropWhile_id[of "\<lambda>c. c \<noteq> CHR ''{''" "text"] by simp
  also have "rest = ?body @ ?post'" by simp
  finally have "text = ?pre @ ''{'' @ ?body @ ''}'' @ post" using c p by simp
  moreover have "CHR ''{'' \<notin> set ?pre" using set_takeWhileD by fastforce
  moreover have "CHR ''}'' \<notin> set ?body" using set_takeWhileD by fastforce
  ultimately show "first_brace_substring text s"
    unfolding first_brace_substring_def using s c by (intro exI[of _ ?pre] exI[of _ ?body] exI[of _ post]) simp
next
  assume "first_brace_substring text s"
  then obtain pre body post where t: "text = pre @ ''{'' @ body @ ''}'' @ post"
    and p: "CHR ''{'' \<notin> set pre" and b: "CHR ''}'' \<notin> set body" and s: "s = ''{'' @ body @ ''}''"
    unfolding first_brace_substring_def by blast
  have dp: "dropWhile (\<lambda>c. c \<noteq> CHR ''{'') pre = []" using p by auto
  have d: "dropWhile (\<lambda>c. c \<noteq> CHR ''{'') text = CHR ''{'' # body @ CHR ''}'' # post"
    unfolding t by (simp add: dropWhile_append3 dp)
  have tb: "takeWhile (\<lambda>c. c \<noteq> CHR ''}'') body = body" using b by auto
  have tk: "takeWhile (\<lambda>c. c \<noteq> CHR ''}'') (body @ CHR ''}'' # post) = body"
    by (simp add: takeWhile_tail tb)
  show "re_search_brace text = Some s"
    by (simp add: re_search_brace_def d tk s del: takeWhile_append1 takeWhile_append2)
qed

lemma re_search_brace_none:
  assumes "CHR ''{'' \<notin> set response"
  shows "re_search_brace response = None"
proof -
  have h: "dropWhile (\<lambda>c. c \<noteq> CHR ''{'') response = []" using assms by auto
  show ?thesis unfolding re_search_brace_def h by simp
qed

section \<open>The orchestration: which branch is taken\<close>

lemma analyze_try_raises:
  "analyze_try rt task prompt w = (Inl e, w1) \<longleftrightarrow> strands_agent rt prompt w = (Inl e, w1)"
  by (auto simp: analyze_try_def extract_tags_policy Let_def split: prod.splits sum.splits)

lemma analyze_try_success:
  assumes "strands_agent rt prompt w = (Inr summary, w1)"
  shows "\<exists>w'. analyze_try rt task prompt w =
     (Inr (task\<lparr>task_status :=
               \<lparr>status_state = completed,
                status_message = Some
                  \<lparr>msg_role = Role_agent,
                   msg_parts = [TextPart ''Market summary successfully generated.'' (Some [])],
                   msg_messageId = fst (uuid4 rt (snd (uuid4 rt (snd (strands_agent rt (tag_prompt summary) w1))))),
                   msg_kind = ''message'',
                   msg_taskId = Some (task_id task),
                   msg_contextId = Some (task_contextId task)\<rparr>,
                status_timestamp = Some (fst (utcnow rt (snd (uuid4 rt (snd (uuid4 rt (snd (strands_agent rt (tag_prompt summary) w1))))))) @ ''Z'')\<rparr>,
             task_artifacts := Some (artifacts_or_empty task @
               [\<lparr>art_artifactId = fst (uuid4 rt (snd (strands_agent rt (tag_prompt summary) w1))),
                 art_parts = [TextPart summary (Some []),
                              DataPart (parsing_policy (py_float rt)
                                 (fst (strands_agent rt (tag_prompt summary) w1))) (Some [])],
                 art_name = Some ''Market Summary'',
                 art_description = Some ''Summary and tags generated by LLM''\<rparr>]),
             task_kind := ''task''\<rparr>), w')"
  using assms
  by (simp add: analyze_try_def extract_tags_policy Let_def split: prod.splits)

lemma analyze_except_result:
  "\<exists>w'. analyze_except rt task e w =
     (Inr (task\<lparr>task_status :=
               \<lparr>status_state = failed,
                status_message = Some
                  \<lparr>msg_role = Role_agent,
                   msg_parts = [TextPart (exn_str e) (Some [])],
                   msg_messageId = fst (uuid4 rt (snd (uuid4 rt w))),
                   msg_kind = ''message'',
                   msg_taskId = Some (task_id task),
                   msg_contextId = Some (task_contextId task)\<rparr>,
                status_timestamp = Some (fst (utcnow rt (snd (uuid4 rt (snd (uuid4 rt w))))) @ ''Z'')\<rparr>,
             task_artifacts := Some (artifacts_or_empty task @
               [\<lparr>art_artifactId = fst (uuid4 rt w),
                 art_parts = [TextPart (exn_str e) (Some [])],
                 art_name = Some ''Error'',
                 art_description = Some ''Error encountered during market analysis''\<rparr>]),
             task_kind := ''task''\<rparr>), w')"
  by (simp add: analyze_except_def Let_def split: prod.splits)

lemma analyze_raises:
  "fst (analyze rt task w) = Inl e \<longleftrightarrow>
   build_prompt (extract_user_input_from_task (Some task)) = Inl e"
proof (cases "build_prompt (extract_user_input_from_task (Some task))")
  case (Inl e')
  then show ?thesis by (simp add: analyze_def)
next
  case (Inr prompt)
  obtain r w1 where c: "strands_agent rt prompt w = (r, w1)" by (cases "strands_agent rt prompt w")
  show ?thesis
  proof (cases r)
    case (Inl e')
    with c have "analyze_try rt task prompt w = (Inl e', w1)" by (simp add: analyze_try_raises)
    then show ?thesis using analyze_except_result[of rt task e' w1] Inr
      by (auto simp: analyze_def)
  next
    case (Inr summary)
    with c analyze_try_success[of rt prompt w summary w1 task] show ?thesis
      using \<open>build_prompt (extract_user_input_from_task (Some task)) = Inr prompt\<close>
      by (auto simp: analyze_def)
  qed
qed

lemma analyze_summary_raises:
  assumes "build_prompt (extract_user_input_from_task (Some task)) = Inr prompt"
      and "strands_agent rt prompt w = (Inl e, w1)"
  shows "analyze rt task w = analyze_except rt task e w1"
  using assms analyze_try_raises[of rt task prompt w e w1] by (simp add: analyze_def)

lemma analyze_summary_succeeds:
  assumes "build_prompt (extract_user_input_from_task (Some task)) = Inr prompt"
      and "strands_agent rt prompt w = (Inr summary, w1)"
  shows "analyze rt task w = analyze_try rt task prompt w"
  using assms analyze_try_success[OF assms(2), of task] by (auto simp: analyze_def)

section \<open>Concrete runs evaluated\<close>

lemma str_int_100: "str_int 100 = ''100''"
  by code_simp

lemma str_int_150: "str_int 150 = ''150''"
  by code_simp

lemma str_int_200: "str_int 200 = ''200''"
  by code_simp

lemma extract_energy:
  "extract_user_input_from_task (Some (user_task [DataPart energy_data None])) = energy_data"
  by (simp add: extract_user_input_from_task_def user_task_def energy_data_def Let_def py_get_def)

lemma build_prompt_energy: "build_prompt energy_data = Inr energy_prompt"
  by (simp add: build_prompt_def energy_data_def energy_prompt_def Let_def py_get_def
        py_join_def py_iter_def py_str_def str_int_100)

lemma build_prompt_empty: "build_prompt [] = Inr default_prompt"
  by (simp add: build_prompt_def default_prompt_def Let_def py_get_def
        py_str_def str_int_150)

section \<open>The claims\<close>

text \<open>
  C3. For every task with no pre-existing artifacts, if the summary-generation model call
  raises an exception, the task returned by \<open>analyze\<close> has status state failed and exactly
  one artifact; that artifact is named "Error" and its single text part is the exception's
  message, and no artifact is named "Market Summary". (The call is made with the prompt that
  was built, so the prompt was built.)
\<close>

theorem analyze_summary_failure:
  assumes "task_artifacts task = None \<or> task_artifacts task = Some []"
      and "build_prompt (extract_user_input_from_task (Some task)) = Inr prompt"
      and "strands_agent rt prompt w = (Inl e, w1)"
  shows "\<exists>task' a. fst (analyze rt task w) = Inr task'
           \<and> status_state (task_status task') = failed
           \<and> task_artifacts task' = Some [a]
           \<and> art_name a = Some ''Error''
           \<and> art_parts a = [TextPart (exn_str e) (Some [])]
           \<and> (\<forall>b \<in> set (artifacts_or_empty task'). art_name b \<noteq> Some ''Market Summary'')"
proof -
  obtain w' where "analyze rt task w =
     (Inr (task\<lparr>task_status :=
               \<lparr>status_state = failed,
                status_message = Some
                  \<lparr>msg_role = Role_agent,
                   msg_parts = [TextPart (exn_str e) (Some [])],
                   msg_messageId = fst (uuid4 rt (snd (uuid4 rt w1))),
                   msg_kind = ''message'',
                   msg_taskId = Some (task_id task),
                   msg_contextId = Some (task_contextId task)\<rparr>,
                status_timestamp = Some (fst (utcnow rt (snd (uuid4 rt (snd (uuid4 rt w1))))) @ ''Z'')\<rparr>,
             task_artifacts := Some (artifacts_or_empty task @
               [\<lparr>art_artifactId = fst (uuid4 rt w1),
                 art_parts = [TextPart (exn_str e) (Some [])],
                 art_name = Some ''Error'',
                 art_description = Some ''Error encountered during market analysis''\<rparr>]),
             task_kind := ''task''\<rparr>), w')"
    using analyze_except_result[of rt task e w1] analyze_summary_raises[OF assms(2,3)] by auto
  then show ?thesis
    using assms(1) by (auto simp: artifacts_or_empty_def)
qed

theorem analyze_summary_failure_witness:
  "\<exists>task' a. fst (analyze scripted (user_task [DataPart energy_data None])
                      [Inl (Exn ''ThrottlingException'' ''Too many requests'')]) = Inr task'
           \<and> status_state (task_status task') = failed
           \<and> task_artifacts task' = Some [a]
           \<and> art_name a = Some ''Error''
           \<and> art_parts a = [TextPart ''Too many requests'' (Some [])]
           \<and> (\<forall>b \<in> set (artifacts_or_empty task'). art_name b \<noteq> Some ''Market Summary'')"
proof -
  have h1: "task_artifacts (user_task [DataPart energy_data None]) = None
            \<or> task_artifacts (user_task [DataPart energy_data None]) = Some []"
    by (simp add: user_task_def)
  have h2: "build_prompt (extract_user_input_from_task (Some (user_task [DataPart energy_data None])))
            = Inr energy_prompt"
    by (simp add: extract_energy build_prompt_energy)
  have h3: "strands_agent scripted energy_prompt
              [Inl (Exn ''ThrottlingException'' ''Too many requests'')]
            = (Inl (Exn ''ThrottlingException'' ''Too many requests''), [])"
    by (simp add: scripted_def)
  from analyze_summary_failure[OF h1 h2 h3] show ?thesis by simp
qed

lemma str_nat_0: "str_nat 0 = ''0''"
  by code_simp

text \<open>
  C1, as stated: every exception raised while building the prompt, invoking the model,
  extracting tags or constructing the result is caught by \<open>analyze\<close>, and none propagates to
  its caller. The prompt is built before the \<^verbatim>\<open>try\<close>: for a data part whose risk factors are
  the list \<^verbatim>\<open>[1]\<close>, \<^verbatim>\<open>", ".join\<close> raises a \<^verbatim>\<open>TypeError\<close> and \<open>analyze\<close> raises it too, whatever
  the model would have answered.
\<close>

theorem analyze_prompt_error_propagates:
  "fst (analyze scripted (user_task [DataPart [(''riskFactors'', PList [PInt 1])] None])
          [Inr ''Markets were calm.'', Inr ''{}''])
   = Inl (Exn ''TypeError'' ''sequence item 0: expected str instance, int found'')"
  by (simp add: analyze_def extract_user_input_from_task_def user_task_def build_prompt_def
        py_get_def py_join_def py_iter_def Let_def str_nat_0)

text \<open>
  C1, amended: once the prompt is built, \<open>analyze\<close> returns a task and raises nothing; and
  every exception \<open>e\<close> raised inside its \<^verbatim>\<open>try\<close> block (the summary call, tag extraction, the
  construction of the result) is caught: the task returned is the task given, with status
  state failed, a status message whose text part is \<^verbatim>\<open>str(e)\<close>, the timestamp read from the
  clock in the handler, and one artifact named "Error" appended whose text part is
  \<^verbatim>\<open>str(e)\<close>; its id, context id and history are unchanged.
\<close>

theorem analyze_catches_try_exceptions:
  assumes "build_prompt (extract_user_input_from_task (Some task)) = Inr prompt"
  shows "(\<exists>task'. fst (analyze rt task w) = Inr task')
       \<and> (analyze_try rt task prompt w = (Inl e, w1) \<longrightarrow>
           (\<exists>task' m a. fst (analyze rt task w) = Inr task'
              \<and> status_state (task_status task') = failed
              \<and> status_message (task_status task') = Some m
              \<and> msg_role m = Role_agent
              \<and> msg_parts m = [TextPart (exn_str e) (Some [])]
              \<and> status_timestamp (task_status task')
                  = Some (fst (utcnow rt (snd (uuid4 rt (snd (uuid4 rt w1))))) @ ''Z'')
              \<and> task_artifacts task' = Some (artifacts_or_empty task @ [a])
              \<and> art_name a = Some ''Error''
              \<and> art_parts a = [TextPart (exn_str e) (Some [])]
              \<and> task_id task' = task_id task
              \<and> task_contextId task' = task_contextId task
              \<and> task_history task' = task_history task))"
proof (intro conjI impI)
  show "\<exists>task'. fst (analyze rt task w) = Inr task'"
  proof (cases "fst (analyze rt task w)")
    case (Inl e')
    then have "build_prompt (extract_user_input_from_task (Some task)) = Inl e'"
      by (simp add: analyze_raises)
    with assms show ?thesis by simp
  next
    case (Inr task')
    then show ?thesis by blast
  qed
next
  assume "analyze_try rt task prompt w = (Inl e, w1)"
  then have c: "strands_agent rt prompt w = (Inl e, w1)" by (simp add: analyze_try_raises)
  show "\<exists>task' m a. fst (analyze rt task w) = Inr task'
              \<and> status_state (task_status task') = failed
              \<and> status_message (task_status task') = Some m
              \<and> msg_role m = Role_agent
              \<and> msg_parts m = [TextPart (exn_str e) (Some [])]
              \<and> status_timestamp (task_status task')
                  = Some (fst (utcnow rt (snd (uuid4 rt (snd (uuid4 rt w1))))) @ ''Z'')
              \<and> task_artifacts task' = Some (artifacts_or_empty task @ [a])
              \<and> art_name a = Some ''Error''
              \<and> art_parts a = [TextPart (exn_str e) (Some [])]
              \<and> task_id task' = task_id task
              \<and> task_contextId task' = task_contextId task
              \<and> task_history task' = task_history task"
    using analyze_except_result[of rt task e w1] analyze_summary_raises[OF assms c] by auto
qed

theorem analyze_catches_try_exceptions_witness:
  "(\<exists>task'. fst (analyze scripted (user_task [DataPart energy_data None])
                   [Inl (Exn ''ModelErrorException'' ''model failed'')]) = Inr task')
   \<and> (\<exists>task' m a.
         fst (analyze scripted (user_task [DataPart energy_data None])
                [Inl (Exn ''ModelErrorException'' ''model failed'')]) = Inr task'
         \<and> status_state (task_status task') = failed
         \<and> status_message (task_status task') = Some m
         \<and> msg_parts m = [TextPart ''model failed'' (Some [])]
         \<and> status_timestamp (task_status task') = Some ''2025-06-01T12:00:00.000000Z''
         \<and> task_artifacts task' = Some [a]
         \<and> art_name a = Some ''Error''
         \<and> art_parts a = [TextPart ''model failed'' (Some [])]
         \<and> task_id task' = ''task-1'')"
proof -
  have h1: "build_prompt (extract_user_input_from_task (Some (user_task [DataPart energy_data None])))
            = Inr energy_prompt"
    by (simp add: extract_energy build_prompt_energy)
  have h2: "analyze_try scripted (user_task [DataPart energy_data None]) energy_prompt
              [Inl (Exn ''ModelErrorException'' ''model failed'')]
            = (Inl (Exn ''ModelErrorException'' ''model failed''), [])"
    by (simp add: analyze_try_raises scripted_def)
  from analyze_catches_try_exceptions[OF h1, of scripted
         "[Inl (Exn ''ModelErrorException'' ''model failed'')]"
         "Exn ''ModelErrorException'' ''model failed''" "[]"] h2
  show ?thesis
    by (auto simp: scripted_def user_task_def artifacts_or_empty_def)
qed

lemma loads_eight_tags:
  "json_loads pf eight_tags_response =
     Inr (PDict [(''tags'', PList [PStr ''a'', PStr ''b'', PStr ''c'', PStr ''d'',
                                 PStr ''e'', PStr ''f'', PStr ''g'', PStr ''h'']),
                 (''sentiment'', PStr ''neutral'')])"
  unfolding eight_tags_response_def by code_simp

lemma policy_eight_tags:
  "parsing_policy pf (Inr eight_tags_response) =
     [(''tags'', PList [PStr ''a'', PStr ''b'', PStr ''c'', PStr ''d'',
                       PStr ''e'', PStr ''f'', PStr ''g'', PStr ''h'']),
      (''sentiment'', PStr ''neutral'')]"
  by (simp add: parsing_policy_def loads_eight_tags normalized_def normalized_tags_def
        normalized_sentiment_def)

text \<open>
  C2, as stated: when both model calls succeed, the "tags" field of the data part has
  between 0 and 7 entries. The code takes the list the model returned as it is: on a
  response with eight tags the completed task carries all eight.
\<close>

theorem analyze_keeps_eight_tags:
  "fst (analyze scripted (user_task [DataPart energy_data None])
          [Inr ''Energy markets were calm.'', Inr eight_tags_response])
   = Inr ((user_task [DataPart energy_data None])
       \<lparr>task_status :=
          \<lparr>status_state = completed,
           status_message = Some
             \<lparr>msg_role = Role_agent,
              msg_parts = [TextPart ''Market summary successfully generated.'' (Some [])],
              msg_messageId = ''123e4567-e89b-42d3-a456-426614174000'',
              msg_kind = ''message'',
              msg_taskId = Some ''task-1'',
              msg_contextId = Some ''ctx-1''\<rparr>,
           status_timestamp = Some ''2025-06-01T12:00:00.000000Z''\<rparr>,
        task_artifacts := Some
          [\<lparr>art_artifactId = ''123e4567-e89b-42d3-a456-426614174000'',
            art_parts =
              [TextPart ''Energy markets were calm.'' (Some []),
               DataPart [(''tags'', PList [PStr ''a'', PStr ''b'', PStr ''c'', PStr ''d'',
                                          PStr ''e'', PStr ''f'', PStr ''g'', PStr ''h'']),
                         (''sentiment'', PStr ''neutral'')] (Some [])],
            art_name = Some ''Market Summary'',
            art_description = Some ''Summary and tags generated by LLM''\<rparr>],
        task_kind := ''task''\<rparr>)"
proof -
  have h1: "build_prompt (extract_user_input_from_task (Some (user_task [DataPart energy_data None])))
            = Inr energy_prompt"
    by (simp add: extract_energy build_prompt_energy)
  have h2: "strands_agent scripted energy_prompt
              [Inr ''Energy markets were calm.'', Inr eight_tags_response]
            = (Inr ''Energy markets were calm.'', [Inr eight_tags_response])"
    by (simp add: scripted_def)
  have h3: "strands_agent scripted (tag_prompt ''Energy markets were calm.'') [Inr eight_tags_response]
            = (Inr eight_tags_response, [])"
    by (simp add: scripted_def)
  from analyze_try_success[OF h2, of "user_task [DataPart energy_data None]"]
  show ?thesis
    unfolding analyze_summary_succeeds[OF h1 h2] h3
    by (auto simp: policy_eight_tags scripted_def user_task_def artifacts_or_empty_def)
qed

text \<open>
  C2, amended: for every task with no pre-existing artifacts, if both model calls succeed
  then the task returned by \<open>analyze\<close> has status state completed and exactly one artifact,
  named "Market Summary", whose parts are a text part with the summary followed by a data
  part with exactly the keys "tags" and "sentiment"; "tags" is a list and "sentiment" a
  string, both as tag extraction derives them from the second response. The code puts no
  bound on the number of tags: the range 4 to 7 is only asked of the model in the prompt.
\<close>

theorem analyze_success:
  assumes "task_artifacts task = None \<or> task_artifacts task = Some []"
      and "build_prompt (extract_user_input_from_task (Some task)) = Inr prompt"
      and "strands_agent rt prompt w = (Inr summary, w1)"
      and "strands_agent rt (tag_prompt summary) w1 = (Inr result, w2)"
  shows "\<exists>task' a tags sentiment.
           fst (analyze rt task w) = Inr task'
           \<and> status_state (task_status task') = completed
           \<and> task_artifacts task' = Some [a]
           \<and> art_name a = Some ''Market Summary''
           \<and> art_parts a = [TextPart summary (Some []),
                             DataPart [(''tags'', PList tags), (''sentiment'', PStr sentiment)]
                               (Some [])]
           \<and> parsing_policy (py_float rt) (Inr result)
               = [(''tags'', PList tags), (''sentiment'', PStr sentiment)]"
proof -
  obtain tags sentiment where
    p: "parsing_policy (py_float rt) (Inr result) = [(''tags'', PList tags), (''sentiment'', PStr sentiment)]"
    using parsing_policy_shape by blast
  from analyze_try_success[OF assms(3), of task] assms(1)
  show ?thesis
    unfolding analyze_summary_succeeds[OF assms(2,3)] assms(4)
    by (auto simp: p artifacts_or_empty_def)
qed

theorem analyze_success_witness:
  "\<exists>task' a tags sentiment.
     fst (analyze scripted (user_task [DataPart energy_data None])
            [Inr ''Energy markets were calm.'', Inr fallback_response]) = Inr task'
     \<and> status_state (task_status task') = completed
     \<and> task_artifacts task' = Some [a]
     \<and> art_name a = Some ''Market Summary''
     \<and> art_parts a = [TextPart ''Energy markets were calm.'' (Some []),
                       DataPart [(''tags'', PList tags), (''sentiment'', PStr sentiment)]
                         (Some [])]
     \<and> parsing_policy (py_float scripted) (Inr fallback_response)
         = [(''tags'', PList tags), (''sentiment'', PStr sentiment)]"
proof -
  have h1: "task_artifacts (user_task [DataPart energy_data None]) = None
            \<or> task_artifacts (user_task [DataPart energy_data None]) = Some []"
    by (simp add: user_task_def)
  have h2: "build_prompt (extract_user_input_from_task (Some (user_task [DataPart energy_data None])))
            = Inr energy_prompt"
    by (simp add: extract_energy build_prompt_energy)
  have h3: "strands_agent scripted energy_prompt
              [Inr ''Energy markets were calm.'', Inr fallback_response]
            = (Inr ''Energy markets were calm.'', [Inr fallback_response])"
    by (simp add: scripted_def)
  have h4: "strands_agent scripted (tag_prompt ''Energy markets were calm.'') [Inr fallback_response]
            = (Inr fallback_response, [])"
    by (simp add: scripted_def)
  from analyze_success[OF h1 h2 h3 h4] show ?thesis .
qed

lemma loads_fallback_response: "json_loads pf fallback_response = Inl json_decode_error"
  unfolding fallback_response_def by code_simp

lemma search_fallback_response:
  "re_search_brace fallback_response
     = Some ''{\"tags\":[\"a\",\"b\",\"c\",\"d\"],\"sentiment\":\"positive\"}''"
  unfolding fallback_response_def by code_simp

lemma loads_fallback_match:
  "json_loads pf ''{\"tags\":[\"a\",\"b\",\"c\",\"d\"],\"sentiment\":\"positive\"}''
     = Inr (PDict [(''tags'', PList [PStr ''a'', PStr ''b'', PStr ''c'', PStr ''d'']),
                   (''sentiment'', PStr ''positive'')])"
  by code_simp

lemma policy_fallback_response:
  "parsing_policy pf (Inr fallback_response)
     = [(''tags'', PList [PStr ''a'', PStr ''b'', PStr ''c'', PStr ''d'']),
        (''sentiment'', PStr ''positive'')]"
  by (simp add: parsing_policy_def loads_fallback_response search_fallback_response
        loads_fallback_match normalized_def normalized_tags_def normalized_sentiment_def)

lemma loads_plain_text: "json_loads pf ''I cannot assess this summary.'' = Inl json_decode_error"
  by code_simp

lemma loads_scalar_tags:
  "json_loads pf scalar_tags_response
     = Inr (PDict [(''tags'', PStr ''solo''), (''sentiment'', PInt 5)])"
  unfolding scalar_tags_response_def by code_simp

lemma str_int_5: "str_int 5 = ''5''"
  by code_simp

text \<open>
  C4. Tag extraction follows the parsing policy on the outcome of the model call: the
  direct parse of the whole response; if that fails, the parse of the first brace-delimited
  substring, which is what the regular expression search returns; if that fails too, or
  there is no such substring, or the call raised, the default. On the response
  \<^verbatim>\<open>Here is the result: {"tags":["a","b","c","d"],"sentiment":"positive"}\<close> the direct parse
  fails, the brace match parses, and the result is those four tags with sentiment
  "positive"; on a response that is not JSON and has no opening brace the result is the
  default.
\<close>

theorem extract_tags_parsing_policy:
  "fst (extract_tags rt summary w)
     = Inr (parsing_policy (py_float rt) (fst (strands_agent rt (tag_prompt summary) w)))
   \<and> (re_search_brace response = Some s \<longleftrightarrow> first_brace_substring response s)
   \<and> (strands_agent rt (tag_prompt summary) w = (Inl e, w') \<longrightarrow>
        fst (extract_tags rt summary w) = Inr default_tags)
   \<and> (strands_agent rt (tag_prompt summary) w = (Inr fallback_response, w') \<longrightarrow>
        json_loads (py_float rt) fallback_response = Inl json_decode_error
        \<and> re_search_brace fallback_response
            = Some ''{\"tags\":[\"a\",\"b\",\"c\",\"d\"],\"sentiment\":\"positive\"}''
        \<and> fst (extract_tags rt summary w)
            = Inr [(''tags'', PList [PStr ''a'', PStr ''b'', PStr ''c'', PStr ''d'']),
                   (''sentiment'', PStr ''positive'')])
   \<and> (strands_agent rt (tag_prompt summary) w = (Inr response, w')
        \<and> json_loads (py_float rt) response = Inl e' \<and> CHR ''{'' \<notin> set response \<longrightarrow>
        fst (extract_tags rt summary w) = Inr default_tags)"
proof (intro conjI impI)
  show "fst (extract_tags rt summary w)
     = Inr (parsing_policy (py_float rt) (fst (strands_agent rt (tag_prompt summary) w)))"
    by (simp add: extract_tags_policy)
  show "re_search_brace response = Some s \<longleftrightarrow> first_brace_substring response s"
    by (rule re_search_brace_first)
next
  assume "strands_agent rt (tag_prompt summary) w = (Inl e, w')"
  then show "fst (extract_tags rt summary w) = Inr default_tags"
    by (simp add: extract_tags_policy parsing_policy_def)
next
  assume a: "strands_agent rt (tag_prompt summary) w = (Inr fallback_response, w')"
  show "json_loads (py_float rt) fallback_response = Inl json_decode_error"
    by (rule loads_fallback_response)
  show "re_search_brace fallback_response
            = Some ''{\"tags\":[\"a\",\"b\",\"c\",\"d\"],\"sentiment\":\"positive\"}''"
    by (rule search_fallback_response)
  show "fst (extract_tags rt summary w)
            = Inr [(''tags'', PList [PStr ''a'', PStr ''b'', PStr ''c'', PStr ''d'']),
                   (''sentiment'', PStr ''positive'')]"
    by (simp add: extract_tags_policy a policy_fallback_response)
next
  assume a: "strands_agent rt (tag_prompt summary) w = (Inr response, w')
        \<and> json_loads (py_float rt) response = Inl e' \<and> CHR ''{'' \<notin> set response"
  then have "re_search_brace response = None" by (simp add: re_search_brace_none)
  with a show "fst (extract_tags rt summary w) = Inr default_tags"
    by (simp add: extract_tags_policy parsing_policy_def)
qed

theorem extract_tags_parsing_policy_witness:
  "fst (extract_tags scripted ''Energy markets were calm.'' [Inr fallback_response])
     = Inr [(''tags'', PList [PStr ''a'', PStr ''b'', PStr ''c'', PStr ''d'']),
            (''sentiment'', PStr ''positive'')]
   \<and> fst (extract_tags scripted ''Energy markets were calm.''
            [Inr ''I cannot assess this summary.'']) = Inr default_tags
   \<and> fst (extract_tags scripted ''Energy markets were calm.''
            [Inl (Exn ''ThrottlingException'' ''Too many requests'')]) = Inr default_tags"
proof -
  have h1: "strands_agent scripted (tag_prompt ''Energy markets were calm.'') [Inr fallback_response]
            = (Inr fallback_response, [])"
    by (simp add: scripted_def)
  have h2: "strands_agent scripted (tag_prompt ''Energy markets were calm.'')
              [Inr ''I cannot assess this summary.'']
            = (Inr ''I cannot assess this summary.'', [])
            \<and> json_loads (py_float scripted) ''I cannot assess this summary.'' = Inl json_decode_error
            \<and> CHR ''{'' \<notin> set ''I cannot assess this summary.''"
    by (simp add: scripted_def loads_plain_text)
  have h3: "strands_agent scripted (tag_prompt ''Energy markets were calm.'')
              [Inl (Exn ''ThrottlingException'' ''Too many requests'')]
            = (Inl (Exn ''ThrottlingException'' ''Too many requests''), [])"
    by (simp add: scripted_def)
  from extract_tags_parsing_policy[of scripted "''Energy markets were calm.''"
         "[Inr fallback_response]" _ _ _ "[]"] h1
  have c1: "fst (extract_tags scripted ''Energy markets were calm.'' [Inr fallback_response])
     = Inr [(''tags'', PList [PStr ''a'', PStr ''b'', PStr ''c'', PStr ''d'']),
            (''sentiment'', PStr ''positive'')]"
    by blast
  from extract_tags_parsing_policy[of scripted "''Energy markets were calm.''"
         "[Inr ''I cannot assess this summary.'']" "''I cannot assess this summary.''" _ _ "[]"
         json_decode_error] h2
  have c2: "fst (extract_tags scripted ''Energy markets were calm.''
            [Inr ''I cannot assess this summary.'']) = Inr default_tags"
    by blast
  from extract_tags_parsing_policy[of scripted "''Energy markets were calm.''"
         "[Inl (Exn ''ThrottlingException'' ''Too many requests'')]" _ _
         "Exn ''ThrottlingException'' ''Too many requests''" "[]"] h3
  have c3: "fst (extract_tags scripted ''Energy markets were calm.''
            [Inl (Exn ''ThrottlingException'' ''Too many requests'')]) = Inr default_tags"
    by blast
  from c1 c2 c3 show ?thesis by simp
qed

text \<open>
  C5. For every summary and every outcome of the model call, \<open>extract_tags\<close> raises nothing
  and returns a mapping with exactly the keys "tags" and "sentiment", the first a list and
  the second a string. When the response parsed to a mapping, the result is its
  normalization: a "tags" value that is not a list becomes a single-element list when it
  is truthy and the empty list otherwise, and a "sentiment" value that is not a string
  becomes its string representation.
\<close>

theorem extract_tags_well_formed:
  "(\<exists>tags sentiment. fst (extract_tags rt summary w)
        = Inr [(''tags'', PList tags), (''sentiment'', PStr sentiment)])
   \<and> (strands_agent rt (tag_prompt summary) w = (Inr result, w')
        \<and> parse_result (py_float rt) result = Inr (PDict parsed) \<longrightarrow>
        fst (extract_tags rt summary w)
          = Inr [(''tags'', PList (normalized_tags parsed)),
                 (''sentiment'', PStr (normalized_sentiment parsed))])
   \<and> (map_of parsed ''tags'' = Some v \<and> \<not> isinstance_list v \<longrightarrow>
        normalized_tags parsed = (if py_truthy v then [v] else []))
   \<and> (map_of parsed ''sentiment'' = Some u \<and> \<not> isinstance_str u \<longrightarrow>
        normalized_sentiment parsed = py_str u)"
proof (intro conjI impI)
  show "\<exists>tags sentiment. fst (extract_tags rt summary w)
        = Inr [(''tags'', PList tags), (''sentiment'', PStr sentiment)]"
    using parsing_policy_shape by (simp add: extract_tags_policy)
next
  assume a: "strands_agent rt (tag_prompt summary) w = (Inr result, w')
        \<and> parse_result (py_float rt) result = Inr (PDict parsed)"
  then have "try_except (tags_of_result (py_float rt) result)
               (\<lambda>e. Inr [(''tags'', PList []), (''sentiment'', PStr ''unknown'')])
             = Inr (normalized (PDict parsed))"
    by (simp add: tags_of_result_normalized try_except_def)
  with a show "fst (extract_tags rt summary w)
          = Inr [(''tags'', PList (normalized_tags parsed)),
                 (''sentiment'', PStr (normalized_sentiment parsed))]"
    by (simp add: extract_tags_def normalized_def)
next
  assume "map_of parsed ''tags'' = Some v \<and> \<not> isinstance_list v"
  then show "normalized_tags parsed = (if py_truthy v then [v] else [])"
    by (cases v) (auto simp: normalized_tags_def isinstance_list_def)
next
  assume "map_of parsed ''sentiment'' = Some u \<and> \<not> isinstance_str u"
  then show "normalized_sentiment parsed = py_str u"
    by (cases u) (auto simp: normalized_sentiment_def isinstance_str_def)
qed

theorem extract_tags_well_formed_witness:
  "fst (extract_tags scripted ''Energy markets were calm.'' [Inr scalar_tags_response])
     = Inr [(''tags'', PList [PStr ''solo'']), (''sentiment'', PStr ''5'')]"
proof -
  let ?parsed = "[(''tags'', PStr ''solo''), (''sentiment'', PInt 5)]"
  have h1: "strands_agent scripted (tag_prompt ''Energy markets were calm.'')
              [Inr scalar_tags_response] = (Inr scalar_tags_response, [])
            \<and> parse_result (py_float scripted) scalar_tags_response = Inr (PDict ?parsed)"
    by (simp add: scripted_def parse_result_def try_except_def loads_scalar_tags)
  have h2: "map_of ?parsed ''tags'' = Some (PStr ''solo'') \<and> \<not> isinstance_list (PStr ''solo'')"
    by (simp add: isinstance_list_def)
  have h3: "map_of ?parsed ''sentiment'' = Some (PInt 5) \<and> \<not> isinstance_str (PInt 5)"
    by (simp add: isinstance_str_def)
  from extract_tags_well_formed[of scripted "''Energy markets were calm.''"
         "[Inr scalar_tags_response]" scalar_tags_response "[]" ?parsed
         "PStr ''solo''" "PInt 5"] h1 h2 h3
  show ?thesis
    by (simp add: py_str_def str_int_5)
qed

text \<open>
  C6. For every task whose history is missing or empty, or holds no user message, input
  extraction returns a mapping flagged with the key "error" and raises nothing; the prompt
  builder then applies all its defaults; \<open>analyze\<close> raises nothing, and whenever the summary
  call succeeds (so in particular when both model calls succeed) the task it returns is in
  the completed state.
\<close>

theorem analyze_without_user_input:
  assumes "task_history task = None \<or> task_history task = Some []
           \<or> (\<exists>history. task_history task = Some history
                 \<and> (\<forall>msg \<in> set history. msg_role msg \<noteq> Role_user))"
  shows "(extract_user_input_from_task (Some task) = [(''error'', PStr ''No task or history found'')]
          \<or> extract_user_input_from_task (Some task) = [(''error'', PStr ''No user messages found'')])
       \<and> build_prompt (extract_user_input_from_task (Some task)) = Inr default_prompt
       \<and> (\<exists>task'. fst (analyze rt task w) = Inr task')
       \<and> (strands_agent rt default_prompt w = (Inr summary, w1) \<longrightarrow>
            (\<exists>task'. fst (analyze rt task w) = Inr task'
                \<and> status_state (task_status task') = completed))"
proof -
  from assms have "latest_user_message task = None"
    unfolding latest_user_message_unfold
    by (auto simp: filter_empty_conv split: option.splits)
  from extract_no_latest[OF this]
  have e: "extract_user_input_from_task (Some task) = [(''error'', PStr ''No task or history found'')]
          \<or> extract_user_input_from_task (Some task) = [(''error'', PStr ''No user messages found'')]" .
  then have b: "build_prompt (extract_user_input_from_task (Some task)) = Inr default_prompt"
    using build_prompt_empty
    by (auto simp: build_prompt_def py_get_def)
  have r: "\<exists>task'. fst (analyze rt task w) = Inr task'"
  proof (cases "fst (analyze rt task w)")
    case (Inl e')
    then show ?thesis using b by (simp add: analyze_raises)
  next
    case (Inr task')
    then show ?thesis by blast
  qed
  have c: "strands_agent rt default_prompt w = (Inr summary, w1) \<longrightarrow>
            (\<exists>task'. fst (analyze rt task w) = Inr task'
                \<and> status_state (task_status task') = completed)"
  proof
    assume s: "strands_agent rt default_prompt w = (Inr summary, w1)"
    from analyze_try_success[OF s, of task]
    show "\<exists>task'. fst (analyze rt task w) = Inr task'
                \<and> status_state (task_status task') = completed"
      unfolding analyze_summary_succeeds[OF b s] by auto
  qed
  from e b r c show ?thesis by blast
qed

theorem analyze_without_user_input_witness:
  "extract_user_input_from_task (Some ((user_task [])\<lparr>task_history := None\<rparr>))
     = [(''error'', PStr ''No task or history found'')]
   \<and> build_prompt (extract_user_input_from_task (Some ((user_task [])\<lparr>task_history := None\<rparr>)))
       = Inr default_prompt
   \<and> (\<exists>task'. fst (analyze scripted ((user_task [])\<lparr>task_history := None\<rparr>)
                     [Inr ''Technology stocks were mixed.'', Inr fallback_response]) = Inr task'
          \<and> status_state (task_status task') = completed)"
proof -
  have h1: "task_history ((user_task [])\<lparr>task_history := None\<rparr>) = None
           \<or> task_history ((user_task [])\<lparr>task_history := None\<rparr>) = Some []
           \<or> (\<exists>history. task_history ((user_task [])\<lparr>task_history := None\<rparr>) = Some history
                 \<and> (\<forall>msg \<in> set history. msg_role msg \<noteq> Role_user))"
    by simp
  have h2: "strands_agent scripted default_prompt
              [Inr ''Technology stocks were mixed.'', Inr fallback_response]
            = (Inr ''Technology stocks were mixed.'', [Inr fallback_response])"
    by (simp add: scripted_def)
  have x: "extract_user_input_from_task (Some ((user_task [])\<lparr>task_history := None\<rparr>))
     = [(''error'', PStr ''No task or history found'')]"
    by (simp add: extract_user_input_from_task_def)
  from analyze_without_user_input[OF h1, of scripted
         "[Inr ''Technology stocks were mixed.'', Inr fallback_response]"
         "''Technology stocks were mixed.''" "[Inr fallback_response]"] h2 x
  show ?thesis by blast
qed

lemma sublist_within:
  assumes "sublist xs ys" and "sublist ys zs"
  shows "sublist xs zs"
proof -
  from assms obtain a b c d where "ys = a @ xs @ b" and "zs = c @ ys @ d"
    unfolding sublist_def by blast
  then have "zs = (c @ a) @ xs @ (b @ d)" by simp
  then show ?thesis unfolding sublist_def by blast
qed

lemma latest_user_task:
  "latest_user_message (user_task ps) =
     Some \<lparr>msg_role = Role_user, msg_parts = ps, msg_messageId = ''msg-1'',
           msg_kind = ''message'', msg_taskId = Some ''task-1'',
           msg_contextId = Some ''ctx-1''\<rparr>"
  by (simp add: latest_user_message_def user_task_def)

lemma py_get_extract:
  assumes "(k, dflt) \<in> {(''sector'', PStr ''UNKNOWN_SECTOR''), (''focus'', PStr ''UNKNOWN_FOCUS''),
                        (''riskFactors'', PList []), (''summaryLength'', PInt 200)}"
      and "latest_user_message task = Some m"
      and "last_data (msg_parts m) = Some d"
  shows "py_get (extract_user_input_from_task (Some task)) k dflt' = py_get d k dflt"
  using extract_key[OF assms(1), of task] assms(2,3) by (simp add: py_get_def)

text \<open>
  C7, as stated: for every task whose latest user message contains the data part with
  sector "energy", focus "renewables", the two risk factors and summary length 100, the
  prompt contains "energy sector", "renewables", "100 words" and "regulation, oil prices".
  A later data part of the same message overwrites all four fields: with a second data part
  that only names the sector "finance", none of the four substrings is in the prompt.
\<close>

theorem later_data_part_overwrites:
  "(case build_prompt (extract_user_input_from_task (Some (user_task
            [DataPart energy_data None, DataPart [(''sector'', PStr ''finance'')] None]))) of
      Inl e \<Rightarrow> False
    | Inr prompt \<Rightarrow>
        \<not> sublist ''energy sector'' prompt \<and> \<not> sublist ''renewables'' prompt
        \<and> \<not> sublist ''100 words'' prompt \<and> \<not> sublist ''regulation, oil prices'' prompt)"
  by code_simp


text \<open>
  C7, amended: for every task in which that data part is the last non-empty data part of
  the latest user message, the prompt is built and contains "energy sector", "renewables",
  "100 words" and "regulation, oil prices".
\<close>

theorem prompt_for_energy_data:
  assumes "latest_user_message task = Some m"
      and "last_data (msg_parts m) = Some energy_data"
  shows "\<exists>prompt. build_prompt (extract_user_input_from_task (Some task)) = Inr prompt
           \<and> sublist ''energy sector'' prompt \<and> sublist ''renewables'' prompt
           \<and> sublist ''100 words'' prompt \<and> sublist ''regulation, oil prices'' prompt"
proof -
  let ?inp = "extract_user_input_from_task (Some task)"
  have sec: "py_get ?inp ''sector'' (PStr ''technology sector'') = PStr ''energy''"
    using py_get_extract[OF _ assms, of "''sector''" "PStr ''UNKNOWN_SECTOR''"]
    by (simp add: energy_data_def py_get_def)
  have foc: "py_get ?inp ''focus'' (PStr ''overall outlook'') = PStr ''renewables''"
    using py_get_extract[OF _ assms, of "''focus''" "PStr ''UNKNOWN_FOCUS''"]
    by (simp add: energy_data_def py_get_def)
  have rf: "py_get ?inp ''riskFactors'' (PList []) = PList [PStr ''regulation'', PStr ''oil prices'']"
    using py_get_extract[OF _ assms, of "''riskFactors''" "PList []"]
    by (simp add: energy_data_def py_get_def)
  have len: "py_get ?inp ''summaryLength'' (PInt 150) = PInt 100"
    using py_get_extract[OF _ assms, of "''summaryLength''" "PInt 200"]
    by (simp add: energy_data_def py_get_def)
  have j: "py_join '', '' (PList [PStr ''regulation'', PStr ''oil prices''])
             = Inr ''regulation, oil prices''"
    by (simp add: py_join_def py_iter_def)
  obtain prompt where p: "build_prompt ?inp = Inr prompt"
  proof (cases "build_prompt ?inp")
    case (Inl e)
    then show ?thesis using rf j by (simp add: build_prompt_raises)
  next
    case (Inr prompt)
    then show ?thesis using that by blast
  qed
  have a1: "sublist ''energy sector'' (''for the '' @ py_str (PStr ''energy'') @ '' sector.'')"
    by code_simp
  have c1: "sublist ''energy sector'' prompt"
    by (rule sublist_within[OF a1 build_prompt_sector[OF p, unfolded sec]])
  have a2: "sublist ''renewables'' (''Focus on '' @ py_str (PStr ''renewables'') @ ''.'')"
    by code_simp
  have c2: "sublist ''renewables'' prompt"
    by (rule sublist_within[OF a2 build_prompt_focus[OF p, unfolded foc]])
  have a3: "sublist ''100 words'' (''(about '' @ py_str (PInt 100) @ '' words)'')"
    by code_simp
  have c3: "sublist ''100 words'' prompt"
    by (rule sublist_within[OF a3 build_prompt_length[OF p, unfolded len]])
  have a4: "sublist ''regulation, oil prices''
          (''Consider risk factors such as: '' @ ''regulation, oil prices'' @ ''.'')"
    by code_simp
  from build_prompt_risks[OF p] obtain risks where
    "(if py_truthy (py_get ?inp ''riskFactors'' (PList []))
      then py_join '', '' (py_get ?inp ''riskFactors'' (PList []))
      else Inr ''market uncertainty'') = Inr risks"
    and r: "sublist (''Consider risk factors such as: '' @ risks @ ''.'') prompt"
    by blast
  then have "risks = ''regulation, oil prices''" unfolding rf by (simp add: j)
  with r have c4: "sublist ''regulation, oil prices'' prompt"
    using sublist_within[OF a4] by simp
  from p c1 c2 c3 c4 show ?thesis by blast
qed

theorem prompt_for_energy_data_witness:
  "\<exists>prompt. build_prompt (extract_user_input_from_task (Some (user_task
               [DataPart energy_data None, TextPart ''Should I buy energy stocks?'' None])))
             = Inr prompt
           \<and> sublist ''energy sector'' prompt \<and> sublist ''renewables'' prompt
           \<and> sublist ''100 words'' prompt \<and> sublist ''regulation, oil prices'' prompt"
proof -
  let ?ps = "[DataPart energy_data None, TextPart ''Should I buy energy stocks?'' None]"
  have h2: "last_data (msg_parts \<lparr>msg_role = Role_user, msg_parts = ?ps, msg_messageId = ''msg-1'',
           msg_kind = ''message'', msg_taskId = Some ''task-1'',
           msg_contextId = Some ''ctx-1''\<rparr>) = Some energy_data"
    by (simp add: energy_data_def)
  from prompt_for_energy_data[OF latest_user_task h2] show ?thesis .
qed

lemma build_prompt_raises_extract:
  assumes "latest_user_message task = Some m"
      and "last_data (msg_parts m) = Some d"
  shows "build_prompt (extract_user_input_from_task (Some task)) = Inl e \<longleftrightarrow>
           py_truthy (py_get d ''riskFactors'' (PList []))
           \<and> py_join '', '' (py_get d ''riskFactors'' (PList [])) = Inl e"
  unfolding build_prompt_raises
  using py_get_extract[OF _ assms, of "''riskFactors''" "PList []" "PList []"] by simp

text \<open>
  C8, as stated: if the latest user message contains a data part that lacks the
  "summaryLength" key, the prompt asks for about 200 words. Extraction skips a data part
  whose data is empty: for a message whose only part is an empty data part the prompt is
  the one with all the builder's defaults, and asks for about 150 words.
\<close>

theorem empty_data_part_asks_150_words:
  "build_prompt (extract_user_input_from_task (Some (user_task [DataPart [] None])))
     = Inr default_prompt
   \<and> sublist ''about 150 words'' default_prompt
   \<and> \<not> sublist ''about 200 words'' default_prompt"
proof -
  have "extract_user_input_from_task (Some (user_task [DataPart [] None])) = []"
    by (simp add: extract_user_input_from_task_def user_task_def)
  moreover have "sublist ''about 150 words'' default_prompt"
    by code_simp
  moreover have "\<not> sublist ''about 200 words'' default_prompt"
    by code_simp
  ultimately show ?thesis by (simp add: build_prompt_empty)
qed

text \<open>
  C8, amended: if the last non-empty data part of the latest user message lacks the
  "summaryLength" key, the prompt, whenever it is built, asks for about 200 words, the
  extractor's default; it is built unless the risk factors of that part cannot be joined.
  If the extracted input has no "summaryLength" at all, the prompt is built and asks for
  about 150 words, the builder's default.
\<close>

theorem summary_length_defaults:
  "(latest_user_message task = Some m \<and> last_data (msg_parts m) = Some d
      \<and> map_of d ''summaryLength'' = None \<longrightarrow>
      (build_prompt (extract_user_input_from_task (Some task)) = Inr prompt \<longrightarrow>
         sublist ''(about 200 words)'' prompt)
      \<and> (build_prompt (extract_user_input_from_task (Some task)) = Inl e \<longleftrightarrow>
           py_truthy (py_get d ''riskFactors'' (PList []))
           \<and> py_join '', '' (py_get d ''riskFactors'' (PList [])) = Inl e))
   \<and> (map_of (extract_user_input_from_task (Some task)) ''summaryLength'' = None \<longrightarrow>
       (\<exists>prompt'. build_prompt (extract_user_input_from_task (Some task)) = Inr prompt'
          \<and> sublist ''(about 150 words)'' prompt'))"
proof (intro conjI impI)
  assume a: "latest_user_message task = Some m \<and> last_data (msg_parts m) = Some d
      \<and> map_of d ''summaryLength'' = None"
  then have m: "latest_user_message task = Some m" and d: "last_data (msg_parts m) = Some d"
    and n: "map_of d ''summaryLength'' = None" by simp_all
  show "build_prompt (extract_user_input_from_task (Some task)) = Inl e \<longleftrightarrow>
           py_truthy (py_get d ''riskFactors'' (PList []))
           \<and> py_join '', '' (py_get d ''riskFactors'' (PList [])) = Inl e"
    by (rule build_prompt_raises_extract[OF m d])
  assume p: "build_prompt (extract_user_input_from_task (Some task)) = Inr prompt"
  have len: "py_get (extract_user_input_from_task (Some task)) ''summaryLength'' (PInt 150)
               = PInt 200"
    using py_get_extract[OF _ m d, of "''summaryLength''" "PInt 200"] n
    by (simp add: py_get_def)
  from build_prompt_length[OF p, unfolded len]
  show "sublist ''(about 200 words)'' prompt"
    by (simp add: py_str_def str_int_200)
next
  let ?inp = "extract_user_input_from_task (Some task)"
  assume n: "map_of ?inp ''summaryLength'' = None"
  have rf: "map_of ?inp ''riskFactors'' = None"
    using n extract_key[of "''summaryLength''" "PInt 200" task]
      extract_key[of "''riskFactors''" "PList []" task]
    by (auto split: option.splits)
  then have g: "py_get ?inp ''riskFactors'' (PList []) = PList []"
    by (simp add: py_get_def)
  obtain prompt' where p: "build_prompt ?inp = Inr prompt'"
  proof (cases "build_prompt ?inp")
    case (Inl e')
    then show ?thesis using g by (simp add: build_prompt_raises)
  next
    case (Inr prompt')
    then show ?thesis using that by blast
  qed
  have len: "py_get ?inp ''summaryLength'' (PInt 150) = PInt 150"
    using n by (simp add: py_get_def)
  from build_prompt_length[OF p, unfolded len]
  have "sublist ''(about 150 words)'' prompt'"
    by (simp add: py_str_def str_int_150)
  with p show "\<exists>prompt'. build_prompt ?inp = Inr prompt' \<and> sublist ''(about 150 words)'' prompt'"
    by blast
qed

theorem summary_length_defaults_witness:
  "(\<exists>prompt. build_prompt (extract_user_input_from_task (Some (user_task
              [DataPart [(''sector'', PStr ''energy'')] None]))) = Inr prompt
      \<and> sublist ''(about 200 words)'' prompt)
   \<and> (\<exists>prompt'. build_prompt (extract_user_input_from_task (Some (user_task
              [TextPart ''How is the market?'' None]))) = Inr prompt'
      \<and> sublist ''(about 150 words)'' prompt')"
proof -
  let ?d = "[(''sector'', PStr ''energy'')]"
  let ?t1 = "user_task [DataPart ?d None]"
  let ?t2 = "user_task [TextPart ''How is the market?'' None]"
  let ?m = "\<lparr>msg_role = Role_user, msg_parts = [DataPart ?d None], msg_messageId = ''msg-1'',
           msg_kind = ''message'', msg_taskId = Some ''task-1'',
           msg_contextId = Some ''ctx-1''\<rparr>"
  have h1: "latest_user_message ?t1 = Some ?m \<and> last_data (msg_parts ?m) = Some ?d
      \<and> map_of ?d ''summaryLength'' = None"
    by (simp add: latest_user_task)
  have "\<not> (py_truthy (py_get ?d ''riskFactors'' (PList []))
           \<and> py_join '', '' (py_get ?d ''riskFactors'' (PList [])) = Inl e)" for e
    by (simp add: py_get_def)
  then have "build_prompt (extract_user_input_from_task (Some ?t1)) \<noteq> Inl e" for e
    using summary_length_defaults[of ?t1 ?m ?d _ e] h1 by blast
  then obtain prompt where p: "build_prompt (extract_user_input_from_task (Some ?t1)) = Inr prompt"
    by (cases "build_prompt (extract_user_input_from_task (Some ?t1))") auto
  from summary_length_defaults[of ?t1 ?m ?d prompt] h1 p
  have c1: "sublist ''(about 200 words)'' prompt" by blast
  have h2: "map_of (extract_user_input_from_task (Some ?t2)) ''summaryLength'' = None"
    by (simp add: extract_user_input_from_task_def user_task_def)
  from summary_length_defaults[of ?t2] h2
  have c2: "\<exists>prompt'. build_prompt (extract_user_input_from_task (Some ?t2)) = Inr prompt'
      \<and> sublist ''(about 150 words)'' prompt'" by blast
  from p c1 c2 show ?thesis by blast
qed

text \<open>
  C10, as stated: when the latest user message has a data part that lacks "sector" or
  "focus", extraction stores the sentinels, and the builder's defaults are never applied
  when any data part is present. A data part whose data is empty lacks both keys, yet
  extraction skips it: the prompt then has the builder's defaults and no sentinel.
\<close>

theorem empty_data_part_gets_builder_defaults:
  "(case build_prompt (extract_user_input_from_task (Some (user_task
            [TextPart ''Which stock should I buy?'' None, DataPart [] None]))) of
      Inl e \<Rightarrow> False
    | Inr prompt \<Rightarrow>
        sublist ''for the technology sector sector.'' prompt
        \<and> sublist ''Focus on overall outlook.'' prompt
        \<and> \<not> sublist ''UNKNOWN_SECTOR'' prompt \<and> \<not> sublist ''UNKNOWN_FOCUS'' prompt)"
  by code_simp

text \<open>
  C10, amended: when the latest user message has a non-empty data part, the extracted
  input has both "sector" and "focus", so the builder's defaults "technology sector" and
  "overall outlook" are not applied; if the last such part lacks "sector" (or "focus"),
  the stored value is the sentinel "UNKNOWN_SECTOR" (resp. "UNKNOWN_FOCUS"), and the
  prompt, whenever it is built, contains "UNKNOWN_SECTOR sector" (resp.
  "Focus on UNKNOWN_FOCUS").
\<close>

theorem unknown_sentinels:
  assumes "latest_user_message task = Some m"
      and "last_data (msg_parts m) = Some d"
  shows "map_of (extract_user_input_from_task (Some task)) ''sector'' \<noteq> None
       \<and> map_of (extract_user_input_from_task (Some task)) ''focus'' \<noteq> None
       \<and> (map_of d ''sector'' = None \<longrightarrow>
            map_of (extract_user_input_from_task (Some task)) ''sector''
              = Some (PStr ''UNKNOWN_SECTOR'')
            \<and> (build_prompt (extract_user_input_from_task (Some task)) = Inr prompt \<longrightarrow>
                 sublist ''UNKNOWN_SECTOR sector'' prompt))
       \<and> (map_of d ''focus'' = None \<longrightarrow>
            map_of (extract_user_input_from_task (Some task)) ''focus''
              = Some (PStr ''UNKNOWN_FOCUS'')
            \<and> (build_prompt (extract_user_input_from_task (Some task)) = Inr prompt \<longrightarrow>
                 sublist ''Focus on UNKNOWN_FOCUS'' prompt))"
proof -
  let ?inp = "extract_user_input_from_task (Some task)"
  have s: "map_of ?inp ''sector'' = Some (py_get d ''sector'' (PStr ''UNKNOWN_SECTOR''))"
    using extract_key[of "''sector''" "PStr ''UNKNOWN_SECTOR''" task] assms by simp
  have f: "map_of ?inp ''focus'' = Some (py_get d ''focus'' (PStr ''UNKNOWN_FOCUS''))"
    using extract_key[of "''focus''" "PStr ''UNKNOWN_FOCUS''" task] assms by simp
  have a1: "sublist ''UNKNOWN_SECTOR sector''
              (''for the '' @ py_str (PStr ''UNKNOWN_SECTOR'') @ '' sector.'')"
    by code_simp
  have a2: "sublist ''Focus on UNKNOWN_FOCUS''
              (''Focus on '' @ py_str (PStr ''UNKNOWN_FOCUS'') @ ''.'')"
    by code_simp
  have c1: "sublist ''UNKNOWN_SECTOR sector'' prompt"
    if n: "map_of d ''sector'' = None" and p: "build_prompt ?inp = Inr prompt"
  proof -
    have g: "py_get ?inp ''sector'' (PStr ''technology sector'') = PStr ''UNKNOWN_SECTOR''"
      using s n by (simp add: py_get_def)
    show ?thesis by (rule sublist_within[OF a1 build_prompt_sector[OF p, unfolded g]])
  qed
  have c2: "sublist ''Focus on UNKNOWN_FOCUS'' prompt"
    if n: "map_of d ''focus'' = None" and p: "build_prompt ?inp = Inr prompt"
  proof -
    have g: "py_get ?inp ''focus'' (PStr ''overall outlook'') = PStr ''UNKNOWN_FOCUS''"
      using f n by (simp add: py_get_def)
    show ?thesis by (rule sublist_within[OF a2 build_prompt_focus[OF p, unfolded g]])
  qed
  from s f c1 c2 show ?thesis by (simp add: py_get_def)
qed

theorem unknown_sentinels_witness:
  "map_of (extract_user_input_from_task (Some (user_task
             [DataPart [(''summaryLength'', PInt 100)] None]))) ''sector''
     = Some (PStr ''UNKNOWN_SECTOR'')
   \<and> map_of (extract_user_input_from_task (Some (user_task
             [DataPart [(''summaryLength'', PInt 100)] None]))) ''focus''
     = Some (PStr ''UNKNOWN_FOCUS'')
   \<and> (\<exists>prompt. build_prompt (extract_user_input_from_task (Some (user_task
             [DataPart [(''summaryLength'', PInt 100)] None]))) = Inr prompt
        \<and> sublist ''UNKNOWN_SECTOR sector'' prompt
        \<and> sublist ''Focus on UNKNOWN_FOCUS'' prompt)"
proof -
  let ?d = "[(''summaryLength'', PInt 100)]"
  let ?t = "user_task [DataPart ?d None]"
  let ?m = "\<lparr>msg_role = Role_user, msg_parts = [DataPart ?d None], msg_messageId = ''msg-1'',
           msg_kind = ''message'', msg_taskId = Some ''task-1'',
           msg_contextId = Some ''ctx-1''\<rparr>"
  have h2: "last_data (msg_parts ?m) = Some ?d" by simp
  have n: "map_of ?d ''sector'' = None" "map_of ?d ''focus'' = None" by simp_all
  have "build_prompt (extract_user_input_from_task (Some ?t)) \<noteq> Inl e" for e
    using build_prompt_raises_extract[OF latest_user_task h2, of e]
    by (simp add: py_get_def)
  then obtain prompt where p: "build_prompt (extract_user_input_from_task (Some ?t)) = Inr prompt"
    by (cases "build_prompt (extract_user_input_from_task (Some ?t))") auto
  from unknown_sentinels[OF latest_user_task h2, of prompt] n p
  show ?thesis by blast
qed

text \<open>
  C9. For every request event that carries a domain name, and every environment, the
  agent-card handler raises nothing and returns status code 200 with a body that is the
  JSON encoding of a document whose top-level keys are id, name, description, protocol,
  skills, endpoints and metadata, and whose endpoints.send ends with "/tasks/send".
\<close>

theorem lambda_handler_agent_card:
  assumes "py_subscript (PDict event) ''requestContext'' = Inr request_context"
      and "py_subscript request_context ''domainName'' = Inr domain"
  shows "\<exists>response card send.
           lambda_handler event context environ = Inr response
           \<and> map_of response ''statusCode'' = Some (PInt 200)
           \<and> map_of response ''body'' = Some (PStr (json_dumps (PDict card)))
           \<and> map fst card = [''id'', ''name'', ''description'', ''protocol'', ''skills'',
                               ''endpoints'', ''metadata'']
           \<and> map_of card ''endpoints'' = Some (PDict [(''send'', PStr send)])
           \<and> suffix ''/tasks/send'' send"
proof -
  let ?region = "environ_get environ ''AWS_REGION'' ''us-east-1''"
  let ?model_id = "environ_get environ ''BEDROCK_MODEL_ID''
                     ''us.anthropic.claude-3-5-haiku-20241022-v1:0''"
  let ?card = "agent_card (py_str domain) ?region ?model_id"
  let ?send = "''https://'' @ py_str domain @ ''/dev/tasks/send''"
  let ?response = "[(''statusCode'', PInt 200),
                    (''body'', PStr (json_dumps (PDict ?card))),
                    (''headers'', PDict [(''Content-Type'', PStr ''application/json'')])]"
  have r: "lambda_handler event context environ = Inr ?response"
    using assms by (simp add: lambda_handler_def Let_def del: json_dumps.simps)
  have b: "map_of ?response ''statusCode'' = Some (PInt 200)
           \<and> map_of ?response ''body'' = Some (PStr (json_dumps (PDict ?card)))"
    by (simp del: json_dumps.simps)
  have k: "map fst ?card = [''id'', ''name'', ''description'', ''protocol'', ''skills'',
                            ''endpoints'', ''metadata'']"
    by (simp add: agent_card_def)
  have e: "map_of ?card ''endpoints'' = Some (PDict [(''send'', PStr ?send)])"
    by (simp add: agent_card_def)
  have s: "suffix ''/tasks/send'' ?send"
    unfolding suffix_def
    by (rule exI[of _ "''https://'' @ py_str domain @ ''/dev''"]) simp
  show ?thesis
    apply (rule exI[of _ ?response])
    apply (rule exI[of _ ?card])
    apply (rule exI[of _ ?send])
    apply (insert r b k e s)
    apply (elim conjE)
    apply (intro conjI)
         apply assumption+
    done
qed

theorem lambda_handler_agent_card_witness:
  "\<exists>response card send.
     lambda_handler
       [(''requestContext'', PDict [(''domainName'', PStr ''abc123.execute-api.us-east-1.amazonaws.com'')])]
       PNone Map.empty = Inr response
     \<and> map_of response ''statusCode'' = Some (PInt 200)
     \<and> map_of response ''body'' = Some (PStr (json_dumps (PDict card)))
     \<and> map fst card = [''id'', ''name'', ''description'', ''protocol'', ''skills'',
                         ''endpoints'', ''metadata'']
     \<and> map_of card ''endpoints'' = Some (PDict [(''send'', PStr send)])
     \<and> suffix ''/tasks/send'' send"
proof -
  let ?rc = "PDict [(''domainName'', PStr ''abc123.execute-api.us-east-1.amazonaws.com'')]"
  have h1: "py_subscript (PDict [(''requestContext'', ?rc)]) ''requestContext'' = Inr ?rc"
    by (simp add: py_subscript_def)
  have h2: "py_subscript ?rc ''domainName''
              = Inr (PStr ''abc123.execute-api.us-east-1.amazonaws.com'')"
    by (simp add: py_subscript_def)
  from lambda_handler_agent_card[OF h1 h2] show ?thesis .
qed

end
